theory Spec2Isabelle
  imports
    Complex_Main
    "HOL-Library.Char_ord"
    "HOL-Library.List_Lexorder"
    "HOL-Library.Product_Lexorder"
    "HOL-Library.Multiset"
begin

section \<open>Python values and strings\<close>

text \<open>
  The learning tracker of \<^verbatim>\<open>core/learning_tracker.py\<close> stores events as dictionaries
  and compares context values through \<^verbatim>\<open>str(v).lower()\<close>. Context values are the JSON
  scalars that survive a round trip through the backing file: strings, integers, booleans
  and \<^verbatim>\<open>None\<close>. Strings are ASCII character lists. Python floats (confidences,
  success rates, thresholds) are modelled as exact reals: every float the tracker computes
  is a correctly rounded quotient of two small counts compared with a decimal literal, and
  rounding is monotone, so the comparison of the exact values decides the same way.
\<close>

datatype py_error = ZeroDivisionError | ValueError | KeyError | OverflowError

datatype pyval = PStr string | PInt int | PBool bool | PNone

definition digit_char :: "nat \<Rightarrow> char" where
  "digit_char d = ''0123456789'' ! d"

fun str_nat :: "nat \<Rightarrow> string" where
  "str_nat n = (if n < 10 then [digit_char n] else str_nat (n div 10) @ [digit_char (n mod 10)])"

declare str_nat.simps [simp del]

definition str_int :: "int \<Rightarrow> string" where
  "str_int i = (if i < 0 then CHR ''-'' # str_nat (nat (- i)) else str_nat (nat i))"

text \<open>\<^verbatim>\<open>str(v)\<close> for a context value.\<close>

fun py_str :: "pyval \<Rightarrow> string" where
  "py_str (PStr s) = s"
| "py_str (PInt i) = str_int i"
| "py_str (PBool b) = (if b then ''True'' else ''False'')"
| "py_str PNone = ''None''"

text \<open>\<^verbatim>\<open>s.lower()\<close> on ASCII text.\<close>

definition lower_char :: "char \<Rightarrow> char" where
  "lower_char c =
     (case map_of (zip ''ABCDEFGHIJKLMNOPQRSTUVWXYZ'' ''abcdefghijklmnopqrstuvwxyz'') c of
        Some l \<Rightarrow> l
      | None \<Rightarrow> c)"

definition lower :: "string \<Rightarrow> string" where
  "lower s = map lower_char s"

text \<open>\<^verbatim>\<open>sub in s\<close> for strings: \<^verbatim>\<open>sub\<close> occurs as a contiguous piece of \<^verbatim>\<open>s\<close>.\<close>

fun starts_with :: "string \<Rightarrow> string \<Rightarrow> bool" where
  "starts_with [] s = True"
| "starts_with (p # ps) [] = False"
| "starts_with (p # ps) (c # cs) = (p = c \<and> starts_with ps cs)"

fun str_in :: "string \<Rightarrow> string \<Rightarrow> bool" where
  "str_in sub [] = (sub = [])"
| "str_in sub (c # cs) = (starts_with sub (c # cs) \<or> str_in sub cs)"

text \<open>\<^verbatim>\<open>sep.join(xs)\<close> and \<^verbatim>\<open>s.split(c)\<close> for a one-character separator.\<close>

fun join :: "string \<Rightarrow> string list \<Rightarrow> string" where
  "join sep [] = []"
| "join sep [x] = x"
| "join sep (x # y # ys) = x @ sep @ join sep (y # ys)"

fun split :: "char \<Rightarrow> string \<Rightarrow> string list" where
  "split sep [] = [[]]"
| "split sep (c # cs) =
     (if c = sep then [] # split sep cs
      else (case split sep cs of [] \<Rightarrow> [[c]] | p # ps \<Rightarrow> (c # p) # ps))"

section \<open>Data model\<close>

text \<open>
  A Python dictionary is the list of its items in insertion order; its keys are distinct.
  \<^verbatim>\<open>len(d)\<close> is the number of items, \<^verbatim>\<open>k in d\<close> and \<^verbatim>\<open>d[k]\<close> are \<open>map_of\<close>.
\<close>

type_synonym py_context = "(string \<times> pyval) list"

record LearningEntry =
  timestamp :: string
  agent :: string
  project :: string
  pattern_type :: string
  entry_context :: py_context
  outcome :: string
  confidence :: real
  tags :: "string list"
  hash_id :: string

record PatternInsight =
  pattern_id :: string
  pattern_type :: string
  frequency :: nat
  success_rate :: real
  contexts :: "py_context list"
  agents :: "string list"
  projects :: "string list"
  recommendations :: "string list"
  last_seen :: string

section \<open>Context matching\<close>

text \<open>
  The inner loop of \<^verbatim>\<open>_context_matches_pattern\<close>: the number of items of the pattern
  context whose key is in the query context with the same lower-cased text.
\<close>

fun count_matches :: "py_context \<Rightarrow> py_context \<Rightarrow> nat" where
  "count_matches ctx [] = 0"
| "count_matches ctx ((key, v) # items) =
     (case map_of ctx key of
        Some v' \<Rightarrow> (if lower (py_str v') = lower (py_str v) then 1 else 0)
      | None \<Rightarrow> 0) + count_matches ctx items"

text \<open>
  The outer loop. \<^verbatim>\<open>matches / total_keys\<close> raises \<^verbatim>\<open>ZeroDivisionError\<close> when the pattern
  context has no key; the first pattern context reaching the 60 percent mark returns
  \<^verbatim>\<open>True\<close> before any later one is looked at.
\<close>

fun context_matches_pattern :: "py_context \<Rightarrow> py_context list \<Rightarrow> py_error + bool" where
  "context_matches_pattern ctx [] = Inr False"
| "context_matches_pattern ctx (pattern_context # rest) =
     (let matches = count_matches ctx pattern_context;
          total_keys = length pattern_context
      in if total_keys = 0 then Inl ZeroDivisionError
         else if real matches / real total_keys \<ge> 0.6 then Inr True
         else context_matches_pattern ctx rest)"

section \<open>Library functions and the backing files\<close>

text \<open>
  The functions of the Python library that the tracker calls and that are not code of the
  repository are parameters of the model:
  \<^item> \<open>sha256_hexdigest s\<close> is \<^verbatim>\<open>hashlib.sha256(s.encode()).hexdigest()\<close>;
  \<^item> \<open>isoformat\<close> and \<open>fromisoformat\<close> are the methods of \<^verbatim>\<open>datetime\<close>, an instant being
    the number of microseconds since \<^verbatim>\<open>datetime.min\<close>, the first instant of the year 1;
    \<open>fromisoformat\<close> is \<open>None\<close> where Python raises \<^verbatim>\<open>ValueError\<close>;
  \<^item> \<open>str_dict d\<close> is \<^verbatim>\<open>str(d)\<close> for a dictionary;
  \<^item> \<open>list_of_set xs\<close> is \<^verbatim>\<open>list(set(xs))\<close>: the elements of \<open>xs\<close> once each, in the
    iteration order of the set, about which Python promises nothing.
\<close>

record py_runtime =
  sha256_hexdigest :: "string \<Rightarrow> string"
  isoformat :: "int \<Rightarrow> string"
  fromisoformat :: "string \<Rightarrow> int option"
  str_dict :: "py_context \<Rightarrow> string"
  list_of_set :: "string list \<Rightarrow> string list"

text \<open>
  The settings \<^verbatim>\<open>__init__\<close> stores on the tracker. \<open>project_name\<close> is
  \<^verbatim>\<open>self.project_path.name\<close>.
\<close>

record LearningTracker =
  project_name :: string
  min_pattern_frequency :: nat
  min_confidence_threshold :: real

definition init_tracker :: "string \<Rightarrow> LearningTracker" where
  "init_tracker name =
     \<lparr>project_name = name, min_pattern_frequency = 3, min_confidence_threshold = 0.7\<rparr>"

text \<open>
  The insight index \<^verbatim>\<open>pattern_insights.json\<close> maps a key to a dictionary: the rolling
  record \<^verbatim>\<open>_update_pattern_insights\<close> maintains, or a global insight that
  \<^verbatim>\<open>sync_with_global\<close> wrote over it.
\<close>

record example =
  example_context :: py_context
  example_outcome :: string
  example_confidence :: real

datatype insight_value =
    Rolling (count: nat) (success_count: nat) (last_updated: string) (examples: "example list")
  | GlobalInsight (global_frequency: nat) (global_projects: "string list")
      (global_success_rate: real)

text \<open>
  The three files, as what \<^verbatim>\<open>_load_json\<close> returns for them: a missing or unreadable file
  reads as its default, \<^verbatim>\<open>[]\<close> or \<^verbatim>\<open>{}\<close>.
\<close>

record store =
  learning_db :: "LearningEntry list"
  insights_db :: "(string \<times> insight_value) list"
  global_db :: "LearningEntry list"

text \<open>
  \<^verbatim>\<open>_save_json\<close> catches \<^verbatim>\<open>IOError\<close> and returns normally. The file then holds the new
  data, or, when the write failed, what it held before (the file could not be opened) or
  nothing readable (it was opened, hence truncated, and the dump failed).
\<close>

datatype write_result = Written | Unchanged | Truncated

definition save_json :: "write_result \<Rightarrow> 'a \<Rightarrow> 'a \<Rightarrow> 'a \<Rightarrow> 'a" where
  "save_json w dflt old new =
     (case w of Written \<Rightarrow> new | Unchanged \<Rightarrow> old | Truncated \<Rightarrow> dflt)"

text \<open>\<^verbatim>\<open>d[k] = v\<close> on a dictionary: an existing key keeps its place, a new key goes last.\<close>

fun dict_set :: "string \<Rightarrow> 'v \<Rightarrow> (string \<times> 'v) list \<Rightarrow> (string \<times> 'v) list" where
  "dict_set k v [] = [(k, v)]"
| "dict_set k v ((k', v') # d) = (if k' = k then (k, v) # d else (k', v') # dict_set k v d)"

text \<open>
  \<^verbatim>\<open>groups[key].append(entry)\<close> on a \<^verbatim>\<open>defaultdict(list)\<close>, and the loop that fills the
  groups from a list of entries.
\<close>

fun group_append :: "string \<Rightarrow> 'a \<Rightarrow> (string \<times> 'a list) list \<Rightarrow> (string \<times> 'a list) list" where
  "group_append k e [] = [(k, [e])]"
| "group_append k e ((k', es) # g) =
     (if k' = k then (k', es @ [e]) # g else (k', es) # group_append k e g)"

definition pattern_groups :: "('a \<Rightarrow> string) \<Rightarrow> 'a list \<Rightarrow> (string \<times> 'a list) list" where
  "pattern_groups key entries = foldl (\<lambda>g e. group_append (key e) e g) [] entries"

section \<open>Recording an event\<close>

text \<open>The content hash of \<^verbatim>\<open>record_learning\<close>: the first 16 hex digits.\<close>

definition entry_hash_id ::
  "py_runtime \<Rightarrow> string \<Rightarrow> string \<Rightarrow> string \<Rightarrow> py_context \<Rightarrow> string \<Rightarrow> string" where
  "entry_hash_id rt ts ag pt ctx outc =
     (let hash_content = ts @ ag @ pt @ str_dict rt ctx @ outc
      in take 16 (sha256_hexdigest rt hash_content))"

text \<open>
  \<^verbatim>\<open>_update_pattern_insights\<close>. Reading \<^verbatim>\<open>insight['count']\<close> raises \<^verbatim>\<open>KeyError\<close> when the
  key holds a global insight, which has no such field; nothing is saved then.
\<close>

definition update_pattern_insights ::
  "write_result \<Rightarrow> store \<Rightarrow> LearningEntry \<Rightarrow> py_error + store" where
  "update_pattern_insights w st entry =
     (let insights = insights_db st;
          pattern_key = agent entry @ ''_'' @ LearningEntry.pattern_type entry;
          insight = (case map_of insights pattern_key of
                       None \<Rightarrow> Rolling 0 0 (timestamp entry) []
                     | Some i \<Rightarrow> i)
      in case insight of
           GlobalInsight f ps r \<Rightarrow> Inl KeyError
         | Rolling c sc lu exs \<Rightarrow>
             (let c' = c + 1;
                  sc' = (if confidence entry > 0.7 then sc + 1 else sc);
                  exs' = exs @ [\<lparr>example_context = entry_context entry,
                                 example_outcome = outcome entry,
                                 example_confidence = confidence entry\<rparr>];
                  exs'' = (if length exs' > 5 then drop (length exs' - 5) exs' else exs');
                  insights' = dict_set pattern_key (Rolling c' sc' (timestamp entry) exs'') insights
              in Inr (st\<lparr>insights_db := save_json w [] insights insights'\<rparr>)))"

text \<open>
  \<^verbatim>\<open>record_learning\<close>, given the clock reading \<open>now\<close> and the results of its two writes.
  It returns the id, or the error it raises, and the files as it leaves them: the event
  log is written before the insight index is touched.
\<close>

definition record_learning ::
  "py_runtime \<Rightarrow> LearningTracker \<Rightarrow> int \<Rightarrow> write_result \<Rightarrow> write_result \<Rightarrow> store \<Rightarrow>
   string \<Rightarrow> string \<Rightarrow> py_context \<Rightarrow> string \<Rightarrow> real \<Rightarrow> string list option \<Rightarrow>
   (py_error + string) \<times> store" where
  "record_learning rt tr now w1 w2 st ag pt ctx outc conf tgs =
     (let ts = isoformat rt now;
          hid = entry_hash_id rt ts ag pt ctx outc;
          entry = \<lparr>timestamp = ts, agent = ag, project = project_name tr,
                   LearningEntry.pattern_type = pt, entry_context = ctx, outcome = outc,
                   confidence = conf, tags = (case tgs of None \<Rightarrow> [] | Some t \<Rightarrow> t),
                   hash_id = hid\<rparr>;
          learning_data = learning_db st @ [entry];
          st1 = st\<lparr>learning_db := save_json w1 [] (learning_db st) learning_data\<rparr>
      in case update_pattern_insights w2 st1 entry of
           Inl err \<Rightarrow> (Inl err, st1)
         | Inr st2 \<Rightarrow> (Inr hid, st2))"

section \<open>Pattern analysis\<close>

text \<open>\<^verbatim>\<open>_create_pattern_signature\<close>: the category and the first three sorted context keys.\<close>

definition create_pattern_signature :: "LearningEntry \<Rightarrow> string" where
  "create_pattern_signature entry =
     (let context_keys = sort (map fst (entry_context entry));
          context_signature = join ''_'' (take 3 context_keys)
      in LearningEntry.pattern_type entry @ ''_'' @ context_signature)"

text \<open>The test \<^verbatim>\<open>_generate_pattern_insight\<close> applies to pick the successful outcomes.\<close>

definition is_successful :: "LearningEntry \<Rightarrow> bool" where
  "is_successful e = (str_in ''success'' (lower (outcome e)) \<or> confidence e > 0.7)"

text \<open>\<^verbatim>\<open>_extract_recommendations\<close>: the loop appends up to four sentences per entry.\<close>

definition outcome_recommendations :: "string \<Rightarrow> string list" where
  "outcome_recommendations outc =
     (if str_in ''refactor'' (lower outc)
        then [''Consider refactoring similar code patterns''] else []) @
     (if str_in ''test'' (lower outc)
        then [''Add comprehensive tests for this pattern''] else []) @
     (if str_in ''performance'' (lower outc)
        then [''Monitor performance impact of similar changes''] else []) @
     (if str_in ''documentation'' (lower outc)
        then [''Document this pattern for future reference''] else [])"

definition extract_recommendations :: "py_runtime \<Rightarrow> LearningEntry list \<Rightarrow> string list" where
  "extract_recommendations rt successful_entries =
     list_of_set rt (concat (map (\<lambda>entry. outcome_recommendations (outcome entry)) successful_entries))"

text \<open>\<^verbatim>\<open>max\<close> of a sequence of strings; it raises \<^verbatim>\<open>ValueError\<close> on an empty one.\<close>

definition py_max :: "string list \<Rightarrow> py_error + string" where
  "py_max xs = (case xs of [] \<Rightarrow> Inl ValueError | x # rest \<Rightarrow> Inr (foldl max x rest))"

text \<open>
  \<^verbatim>\<open>_generate_pattern_insight\<close>. The division is guarded by \<^verbatim>\<open>frequency > 0\<close>; the
  \<^verbatim>\<open>max\<close> over the timestamps is not.
\<close>

definition generate_pattern_insight ::
  "py_runtime \<Rightarrow> string \<Rightarrow> LearningEntry list \<Rightarrow> py_error + PatternInsight" where
  "generate_pattern_insight rt signature entries =
     (let freq = length entries;
          successful_outcomes = filter is_successful entries;
          rate = (if freq > 0 then real (length successful_outcomes) / real freq else 0);
          ags = list_of_set rt (map agent entries);
          prjs = list_of_set rt (map project entries);
          ctxs = map entry_context entries;
          recs = extract_recommendations rt successful_outcomes;
          pid = take 12 (sha256_hexdigest rt signature)
      in case py_max (map timestamp entries) of
           Inl err \<Rightarrow> Inl err
         | Inr seen \<Rightarrow>
             Inr \<lparr>pattern_id = pid, pattern_type = hd (split CHR ''_'' signature),
                  frequency = freq, success_rate = rate, contexts = ctxs, agents = ags,
                  projects = prjs, recommendations = recs, last_seen = seen\<rparr>)"

text \<open>
  The date filter of \<^verbatim>\<open>analyze_patterns\<close>: the comprehension parses every timestamp and
  raises on the first that \<^verbatim>\<open>fromisoformat\<close> rejects.
\<close>

fun filter_by_date :: "py_runtime \<Rightarrow> int \<Rightarrow> LearningEntry list \<Rightarrow> py_error + LearningEntry list" where
  "filter_by_date rt cutoff_date [] = Inr []"
| "filter_by_date rt cutoff_date (entry # rest) =
     (case fromisoformat rt (timestamp entry) of
        None \<Rightarrow> Inl ValueError
      | Some t \<Rightarrow>
          (case filter_by_date rt cutoff_date rest of
             Inl err \<Rightarrow> Inl err
           | Inr kept \<Rightarrow> Inr (if t \<ge> cutoff_date then entry # kept else kept)))"

text \<open>
  An optional filter argument: \<^verbatim>\<open>if agent:\<close> is false for \<^verbatim>\<open>None\<close> and for the empty
  string.
\<close>

definition filter_by_field ::
  "(LearningEntry \<Rightarrow> string) \<Rightarrow> string option \<Rightarrow> LearningEntry list \<Rightarrow> LearningEntry list" where
  "filter_by_field field arg entries =
     (case arg of
        None \<Rightarrow> entries
      | Some v \<Rightarrow> (if v = [] then entries else filter (\<lambda>e. field e = v) entries))"

text \<open>The loop over the groups, in the order of the dictionary.\<close>

fun collect_insights ::
  "py_runtime \<Rightarrow> LearningTracker \<Rightarrow> (string \<times> LearningEntry list) list \<Rightarrow>
   py_error + PatternInsight list" where
  "collect_insights rt tr [] = Inr []"
| "collect_insights rt tr ((signature, entries) # groups) =
     (if length entries \<ge> min_pattern_frequency tr then
        (case generate_pattern_insight rt signature entries of
           Inl err \<Rightarrow> Inl err
         | Inr insight \<Rightarrow>
             (case collect_insights rt tr groups of
                Inl err \<Rightarrow> Inl err
              | Inr insights \<Rightarrow>
                  Inr (if success_rate insight \<ge> min_confidence_threshold tr
                       then insight # insights else insights)))
      else collect_insights rt tr groups)"

text \<open>
  \<^verbatim>\<open>xs.sort(key=k, reverse=True)\<close>: Python reverses the list, sorts it stably by
  ascending key and reverses it again, so that equal keys keep their order.
\<close>

definition sort_reverse :: "('a \<Rightarrow> 'k::linorder) \<Rightarrow> 'a list \<Rightarrow> 'a list" where
  "sort_reverse k xs = rev (sort_key k (rev xs))"

definition insight_key :: "PatternInsight \<Rightarrow> nat \<times> real" where
  "insight_key x = (frequency x, success_rate x)"

definition microseconds_per_day :: int where
  "microseconds_per_day = 86400000000"

text \<open>
  \<^verbatim>\<open>datetime.max\<close>, the last microsecond of the year 9999: the day 3652059 of the
  calendar ends there.
\<close>

definition datetime_max :: int where
  "datetime_max = 3652059 * microseconds_per_day - 1"

text \<open>
  \<^verbatim>\<open>timedelta(days=d)\<close>, in microseconds: it raises \<^verbatim>\<open>OverflowError\<close> when \<open>d\<close> has a
  magnitude above 999999999.
\<close>

definition timedelta_days :: "int \<Rightarrow> py_error + int" where
  "timedelta_days d =
     (if \<bar>d\<bar> > 999999999 then Inl OverflowError else Inr (d * microseconds_per_day))"

text \<open>
  \<^verbatim>\<open>t - delta\<close> for a datetime and a timedelta: it raises \<^verbatim>\<open>OverflowError\<close> when the
  result is not a datetime of the years 1 to 9999.
\<close>

definition datetime_sub :: "int \<Rightarrow> int \<Rightarrow> py_error + int" where
  "datetime_sub t delta =
     (if t - delta < 0 \<or> t - delta > datetime_max then Inl OverflowError else Inr (t - delta))"

text \<open>
  \<^verbatim>\<open>analyze_patterns\<close>, given the clock reading \<open>now\<close>. The cutoff is computed before any
  timestamp is parsed.
\<close>

definition analyze_patterns ::
  "py_runtime \<Rightarrow> LearningTracker \<Rightarrow> int \<Rightarrow> store \<Rightarrow> string option \<Rightarrow> string option \<Rightarrow> int \<Rightarrow>
   py_error + PatternInsight list" where
  "analyze_patterns rt tr now st ag pt days_back =
     (let learning_data = learning_db st
      in case timedelta_days days_back of
           Inl err \<Rightarrow> Inl err
         | Inr delta \<Rightarrow>
             (case datetime_sub now delta of
                Inl err \<Rightarrow> Inl err
              | Inr cutoff_date \<Rightarrow>
                  (case filter_by_date rt cutoff_date learning_data of
                     Inl err \<Rightarrow> Inl err
                   | Inr dated \<Rightarrow>
                       (let filtered_data =
                              filter_by_field LearningEntry.pattern_type pt
                                (filter_by_field agent ag dated);
                            groups = pattern_groups create_pattern_signature filtered_data
                        in case collect_insights rt tr groups of
                             Inl err \<Rightarrow> Inl err
                           | Inr insights \<Rightarrow> Inr (sort_reverse insight_key insights)))))"

section \<open>Recommendations\<close>

text \<open>The loop of \<^verbatim>\<open>get_recommendations\<close> over the ranked insights.\<close>

fun matching_recommendations :: "py_context \<Rightarrow> PatternInsight list \<Rightarrow> py_error + string list" where
  "matching_recommendations ctx [] = Inr []"
| "matching_recommendations ctx (insight # insights) =
     (case context_matches_pattern ctx (contexts insight) of
        Inl err \<Rightarrow> Inl err
      | Inr m \<Rightarrow>
          (case matching_recommendations ctx insights of
             Inl err \<Rightarrow> Inl err
           | Inr recs \<Rightarrow> Inr (if m then recommendations insight @ recs else recs)))"

text \<open>\<^verbatim>\<open>list(dict.fromkeys(xs))\<close>: each key is inserted unless the dictionary has it.\<close>

definition dict_fromkeys :: "'a list \<Rightarrow> 'a list" where
  "dict_fromkeys xs = foldl (\<lambda>d x. if x \<in> set d then d else d @ [x]) [] xs"

definition get_recommendations ::
  "py_runtime \<Rightarrow> LearningTracker \<Rightarrow> int \<Rightarrow> store \<Rightarrow> string \<Rightarrow> py_context \<Rightarrow>
   py_error + string list" where
  "get_recommendations rt tr now st ag ctx =
     (case analyze_patterns rt tr now st (Some ag) None 30 of
        Inl err \<Rightarrow> Inl err
      | Inr insights \<Rightarrow>
          (case matching_recommendations ctx insights of
             Inl err \<Rightarrow> Inl err
           | Inr recs \<Rightarrow> Inr (take 5 (dict_fromkeys recs))))"

section \<open>Synchronisation with the global store\<close>

text \<open>\<^verbatim>\<open>_analyze_global_patterns\<close>: groups keyed by category and agent, five events or more.\<close>

definition global_pattern_key :: "LearningEntry \<Rightarrow> string" where
  "global_pattern_key entry = LearningEntry.pattern_type entry @ ''_'' @ agent entry"

definition global_insight :: "py_runtime \<Rightarrow> LearningEntry list \<Rightarrow> insight_value" where
  "global_insight rt entries =
     GlobalInsight (length entries) (list_of_set rt (map project entries))
       (real (length (filter (\<lambda>e. confidence e > 0.7) entries)) / real (length entries))"

definition analyze_global_patterns ::
  "py_runtime \<Rightarrow> LearningEntry list \<Rightarrow> (string \<times> insight_value) list" where
  "analyze_global_patterns rt global_data =
     map (\<lambda>(pattern_key, entries). (pattern_key, global_insight rt entries))
       (filter (\<lambda>(pattern_key, entries). length entries \<ge> 5)
          (pattern_groups global_pattern_key global_data))"

text \<open>
  \<^verbatim>\<open>_is_insight_relevant\<close>: \<^verbatim>\<open>insight.get\<close> falls back to \<^verbatim>\<open>0\<close> and \<^verbatim>\<open>[]\<close> for a dictionary
  without the two fields. The project name is not looked at.
\<close>

fun is_insight_relevant :: "insight_value \<Rightarrow> string \<Rightarrow> bool" where
  "is_insight_relevant (GlobalInsight f ps r) name = (r > 0.8 \<and> length ps > 2)"
| "is_insight_relevant (Rolling c sc lu exs) name = ((0::real) > 0.8 \<and> length ([]::string list) > 2)"

text \<open>The merge loop of \<^verbatim>\<open>sync_with_global\<close>: the index and the count it builds.\<close>

fun merge_insights ::
  "string \<Rightarrow> (string \<times> insight_value) list \<Rightarrow> (string \<times> insight_value) list \<times> nat \<Rightarrow>
   (string \<times> insight_value) list \<times> nat" where
  "merge_insights name [] acc = acc"
| "merge_insights name ((insight_id, insight) # rest) (project_insights, merged_count) =
     (if is_insight_relevant insight name
      then merge_insights name rest (dict_set insight_id insight project_insights, merged_count + 1)
      else merge_insights name rest (project_insights, merged_count))"

record sync_stats =
  uploaded :: nat
  downloaded :: nat
  total_global :: nat
  total_local :: nat

text \<open>
  \<^verbatim>\<open>sync_with_global\<close>, given the results of its two writes. \<open>total_global\<close> counts the
  merged list in memory, whatever became of the write.
\<close>

definition sync_with_global ::
  "py_runtime \<Rightarrow> LearningTracker \<Rightarrow> write_result \<Rightarrow> write_result \<Rightarrow> store \<Rightarrow> sync_stats \<times> store" where
  "sync_with_global rt tr w1 w2 st =
     (let project_data = learning_db st;
          global_data = global_db st;
          existing_hashes = set (map hash_id global_data);
          new_entries = filter (\<lambda>entry. hash_id entry \<notin> existing_hashes) project_data;
          global_data' = global_data @ new_entries;
          st1 = st\<lparr>global_db := save_json w1 [] global_data global_data'\<rparr>;
          global_insights = analyze_global_patterns rt global_data';
          (project_insights, merged_count) =
             merge_insights (project_name tr) global_insights (insights_db st1, 0);
          st2 = st1\<lparr>insights_db := save_json w2 [] (insights_db st1) project_insights\<rparr>
      in (\<lparr>uploaded = length new_entries, downloaded = merged_count,
           total_global = length global_data', total_local = length project_data\<rparr>, st2))"

section \<open>Example data\<close>

text \<open>
  A runtime to evaluate examples with: instants are written as decimal numbers of
  microseconds, the digest of a text is the text, a dictionary prints as its items, and a
  set is listed in the order of the last occurrences. The examples are set at the instant
  63835600000000000, which is 14 November 2023, 23:06:40.
\<close>

definition digit_value :: "char \<Rightarrow> int option" where
  "digit_value c =
     map_of [(CHR ''0'', 0), (CHR ''1'', 1), (CHR ''2'', 2), (CHR ''3'', 3), (CHR ''4'', 4),
             (CHR ''5'', 5), (CHR ''6'', 6), (CHR ''7'', 7), (CHR ''8'', 8), (CHR ''9'', 9)] c"

fun parse_digits_from :: "int \<Rightarrow> string \<Rightarrow> int option" where
  "parse_digits_from n [] = Some n"
| "parse_digits_from n (c # cs) =
     (case digit_value c of None \<Rightarrow> None | Some d \<Rightarrow> parse_digits_from (10 * n + d) cs)"

definition parse_digits :: "string \<Rightarrow> int option" where
  "parse_digits s = (if s = [] then None else parse_digits_from 0 s)"

definition demo_runtime :: py_runtime where
  "demo_runtime =
     \<lparr>sha256_hexdigest = (\<lambda>s. s),
      isoformat = str_int,
      fromisoformat = parse_digits,
      str_dict = (\<lambda>d. concat (map (\<lambda>(k, v). k @ '':'' @ py_str v @ '','') d)),
      list_of_set = remdups\<rparr>"

definition empty_store :: store where
  "empty_store = \<lparr>learning_db = [], insights_db = [], global_db = []\<rparr>"

text \<open>A stored pattern context of five keys and a query that agrees with it on three.\<close>

definition stored_context :: py_context where
  "stored_context =
     [(''file_type'', PStr ''javascript''), (''error_type'', PStr ''undefined_variable''),
      (''line'', PInt 42), (''strict'', PBool True), (''owner'', PNone)]"

definition query_three_of_five :: py_context where
  "query_three_of_five =
     [(''file_type'', PStr ''JavaScript''), (''strict'', PStr ''TRUE''), (''line'', PStr ''42''),
      (''owner'', PStr ''nobody'')]"

definition query_two_of_five :: py_context where
  "query_two_of_five = [(''file_type'', PStr ''JAVASCRIPT''), (''line'', PInt 42)]"

text \<open>An event the way the command \<^verbatim>\<open>test\<close> records it, with a category holding an underscore.\<close>

definition bug_fix_event :: LearningEntry where
  "bug_fix_event =
     \<lparr>timestamp = ''63835600000000000'', agent = ''sherlock'', project = ''demo'',
      LearningEntry.pattern_type = ''bug_fix'',
      entry_context = [(''file_type'', PStr ''javascript''),
                       (''error_type'', PStr ''undefined_variable'')],
      outcome = ''Successfully fixed undefined variable issue'', confidence = 0.9,
      tags = [''debugging'', ''javascript''], hash_id = ''a1''\<rparr>"

text \<open>An event that only the marker makes successful, and one that nothing does.\<close>

definition low_confidence_success :: LearningEntry where
  "low_confidence_success = bug_fix_event\<lparr>outcome := ''SUCCESS after retry'', confidence := 0.2, hash_id := ''a2''\<rparr>"

definition failed_event :: LearningEntry where
  "failed_event = bug_fix_event\<lparr>outcome := ''gave up'', confidence := 0.7, hash_id := ''a3''\<rparr>"

definition confident_event :: LearningEntry where
  "confident_event = bug_fix_event\<lparr>outcome := ''fixed'', confidence := 0.71, hash_id := ''a4''\<rparr>"

definition four_events :: "LearningEntry list" where
  "four_events = [bug_fix_event, low_confidence_success, failed_event, confident_event]"

text \<open>
  A local log of five events of which two are in the global log already, and a global log
  in which the refactorings of one agent span four projects and the bug fixes of another
  span two.
\<close>

definition mk_event :: "string \<Rightarrow> string \<Rightarrow> string \<Rightarrow> string \<Rightarrow> real \<Rightarrow> LearningEntry" where
  "mk_event hid prj ag pt conf =
     \<lparr>timestamp = ''63835600000000000'', agent = ag, project = prj,
      LearningEntry.pattern_type = pt, entry_context = [(''file_type'', PStr ''python'')],
      outcome = ''done'', confidence = conf, tags = [], hash_id = hid\<rparr>"

definition local_five :: "LearningEntry list" where
  "local_five =
     [mk_event ''h1'' ''demo'' ''edison'' ''refactor'' 0.9,
      mk_event ''h2'' ''demo'' ''edison'' ''refactor'' 0.9,
      mk_event ''h3'' ''demo'' ''sherlock'' ''bug_fix'' 0.9,
      mk_event ''h4'' ''demo'' ''sherlock'' ''bug_fix'' 0.9,
      mk_event ''h5'' ''demo'' ''sherlock'' ''bug_fix'' 0.9]"

definition global_seven :: "LearningEntry list" where
  "global_seven =
     [mk_event ''h2'' ''demo'' ''edison'' ''refactor'' 0.9,
      mk_event ''h4'' ''demo'' ''sherlock'' ''bug_fix'' 0.9,
      mk_event ''g1'' ''shop'' ''edison'' ''refactor'' 0.9,
      mk_event ''g2'' ''blog'' ''edison'' ''refactor'' 0.9,
      mk_event ''g3'' ''blog'' ''edison'' ''refactor'' 0.6,
      mk_event ''g4'' ''shop'' ''sherlock'' ''bug_fix'' 0.9,
      mk_event ''g5'' ''shop'' ''sherlock'' ''bug_fix'' 0.9,
      mk_event ''g6'' ''wiki'' ''edison'' ''refactor'' 0.9]"

definition sync_example :: store where
  "sync_example =
     \<lparr>learning_db = local_five,
      insights_db = [(''sherlock_bug_fix'', Rolling 3 3 ''63835600000000000'' [])],
      global_db = global_seven\<rparr>"

text \<open>
  A log of twelve events of one agent: the first is older than thirty days; of the others,
  three are refactorings, all successful, four are design events of which two succeeded,
  and four are bug fixes of which three succeeded.
\<close>

definition log_event :: "string \<Rightarrow> string \<Rightarrow> string \<Rightarrow> string \<Rightarrow> real \<Rightarrow> LearningEntry" where
  "log_event ts pt key outc conf =
     \<lparr>timestamp = ts, agent = ''sherlock'', project = ''demo'',
      LearningEntry.pattern_type = pt, entry_context = [(key, PStr ''python'')],
      outcome = outc, confidence = conf, tags = [], hash_id = ts\<rparr>"

definition analysis_log :: "LearningEntry list" where
  "analysis_log =
     [log_event ''63825600000000000'' ''refactor'' ''file_type'' ''refactor done'' 0.9,
      log_event ''63835599999000001'' ''refactor'' ''file_type'' ''refactor done'' 0.9,
      log_event ''63835599999000002'' ''design'' ''layer'' ''failed'' 0.1,
      log_event ''63835599999000003'' ''bug_fix'' ''file_type'' ''added a test'' 0.9,
      log_event ''63835599999000004'' ''refactor'' ''file_type'' ''Refactor done'' 0.9,
      log_event ''63835599999000005'' ''design'' ''layer'' ''documentation written'' 0.9,
      log_event ''63835599999000006'' ''bug_fix'' ''file_type'' ''added a test'' 0.9,
      log_event ''63835599999000007'' ''refactor'' ''file_type'' ''success'' 0.3,
      log_event ''63835599999000008'' ''design'' ''layer'' ''failed'' 0.1,
      log_event ''63835599999000009'' ''bug_fix'' ''file_type'' ''added a test'' 0.9,
      log_event ''63835599999000010'' ''design'' ''layer'' ''documentation written'' 0.9,
      log_event ''63835599999000011'' ''bug_fix'' ''file_type'' ''gave up'' 0.2]"

definition analysis_example :: store where
  "analysis_example = \<lparr>learning_db = analysis_log, insights_db = [], global_db = []\<rparr>"

text \<open>The two insights the analysis of this log returns at the instant 63835600000000000.\<close>

definition bug_fix_insight :: PatternInsight where
  "bug_fix_insight =
     \<lparr>pattern_id = ''bug_fix_file'', pattern_type = ''bug'', frequency = 4, success_rate = 3 / 4,
      contexts = replicate 4 [(''file_type'', PStr ''python'')],
      agents = [''sherlock''], projects = [''demo''],
      recommendations = [''Add comprehensive tests for this pattern''],
      last_seen = ''63835599999000011''\<rparr>"

definition refactor_insight :: PatternInsight where
  "refactor_insight =
     \<lparr>pattern_id = ''refactor_fil'', pattern_type = ''refactor'', frequency = 3, success_rate = 1,
      contexts = replicate 3 [(''file_type'', PStr ''python'')],
      agents = [''sherlock''], projects = [''demo''],
      recommendations = [''Consider refactoring similar code patterns''],
      last_seen = ''63835599999000007''\<rparr>"

text \<open>
  Three successful events recorded with the context \<^verbatim>\<open>{}\<close>: their bucket yields an insight
  whose stored contexts are all empty.
\<close>

definition empty_context_log :: "LearningEntry list" where
  "empty_context_log =
     [\<lparr>timestamp = ''63835599999000001'', agent = ''sherlock'', project = ''demo'',
       LearningEntry.pattern_type = ''bug_fix'', entry_context = [], outcome = ''fixed'',
       confidence = 0.9, tags = [], hash_id = ''e1''\<rparr>,
      \<lparr>timestamp = ''63835599999000002'', agent = ''sherlock'', project = ''demo'',
       LearningEntry.pattern_type = ''bug_fix'', entry_context = [], outcome = ''fixed'',
       confidence = 0.9, tags = [], hash_id = ''e2''\<rparr>,
      \<lparr>timestamp = ''63835599999000003'', agent = ''sherlock'', project = ''demo'',
       LearningEntry.pattern_type = ''bug_fix'', entry_context = [], outcome = ''fixed'',
       confidence = 0.9, tags = [], hash_id = ''e3''\<rparr>]"

section \<open>Reference notions\<close>

text \<open>
  The insight index holds a global insight under the key: the one state in which
  recording an event raises.
\<close>

definition holds_global_insight :: "store \<Rightarrow> string \<Rightarrow> bool" where
  "holds_global_insight st k =
     (case map_of (insights_db st) k of Some (GlobalInsight f ps r) \<Rightarrow> True | _ \<Rightarrow> False)"

text \<open>
  The events of a global log under one category-and-agent key, and the global log after
  the local events with a new id have been added to it.
\<close>

definition global_group :: "LearningEntry list \<Rightarrow> string \<Rightarrow> LearningEntry list" where
  "global_group data k = filter (\<lambda>e. global_pattern_key e = k) data"

definition merged_global :: "store \<Rightarrow> LearningEntry list" where
  "merged_global st =
     global_db st @ filter (\<lambda>e. hash_id e \<notin> hash_id ` set (global_db st)) (learning_db st)"

text \<open>
  The instant \<open>days_back\<close> days before the clock reading is a datetime that Python can
  represent. The events an analysis looks at: those of the log whose timestamp lies in the
  window of \<open>days_back\<close> days before the clock reading and that pass the optional agent and
  category filters. The bucket of a signature, and the insight generated for it.
\<close>

definition cutoff_in_range :: "int \<Rightarrow> int \<Rightarrow> bool" where
  "cutoff_in_range now days_back =
     (\<bar>days_back\<bar> \<le> 999999999 \<and>
      0 \<le> now - days_back * microseconds_per_day \<and>
      now - days_back * microseconds_per_day \<le> datetime_max)"

definition in_analysis ::
  "py_runtime \<Rightarrow> int \<Rightarrow> string option \<Rightarrow> string option \<Rightarrow> int \<Rightarrow> LearningEntry \<Rightarrow> bool" where
  "in_analysis rt now ag pt days_back e =
     ((case fromisoformat rt (timestamp e) of
         Some t \<Rightarrow> t \<ge> now - days_back * microseconds_per_day
       | None \<Rightarrow> False) \<and>
      (case ag of None \<Rightarrow> True | Some a \<Rightarrow> a = [] \<or> agent e = a) \<and>
      (case pt of None \<Rightarrow> True | Some p \<Rightarrow> p = [] \<or> LearningEntry.pattern_type e = p))"

definition analysed_events ::
  "py_runtime \<Rightarrow> int \<Rightarrow> store \<Rightarrow> string option \<Rightarrow> string option \<Rightarrow> int \<Rightarrow> LearningEntry list" where
  "analysed_events rt now st ag pt days_back =
     filter (in_analysis rt now ag pt days_back) (learning_db st)"

definition bucket :: "LearningEntry list \<Rightarrow> string \<Rightarrow> LearningEntry list" where
  "bucket data s = filter (\<lambda>e. create_pattern_signature e = s) data"

definition bucket_insight :: "py_runtime \<Rightarrow> LearningEntry list \<Rightarrow> string \<Rightarrow> PatternInsight" where
  "bucket_insight rt data s = projr (generate_pattern_insight rt s (bucket data s))"

text \<open>Removing duplicates while keeping, of each element, its first occurrence.\<close>

function first_seen :: "'a list \<Rightarrow> 'a list" where
  "first_seen [] = []"
| "first_seen (x # xs) = x # first_seen (removeAll x xs)"
  by pat_completeness auto
termination
  by (relation "measure length") (auto simp: less_Suc_eq_le)

text \<open>
  The insights of the buckets holding at least \<open>min_pattern_frequency\<close> events whose
  success rate is at least \<open>min_confidence_threshold\<close>, in the order in which the
  signatures first occur, and these insights after the sort.
\<close>

definition ranking_candidates ::
  "py_runtime \<Rightarrow> LearningTracker \<Rightarrow> LearningEntry list \<Rightarrow> PatternInsight list" where
  "ranking_candidates rt tr data =
     filter (\<lambda>i. min_confidence_threshold tr \<le> success_rate i)
       (map (bucket_insight rt data)
          (filter (\<lambda>s. min_pattern_frequency tr \<le> length (bucket data s))
             (first_seen (map create_pattern_signature data))))"

definition ranked_insights :: "py_runtime \<Rightarrow> LearningTracker \<Rightarrow> LearningEntry list \<Rightarrow> PatternInsight list" where
  "ranked_insights rt tr data =
     sort_reverse insight_key
       (filter (\<lambda>i. min_confidence_threshold tr \<le> success_rate i)
          (map (bucket_insight rt data)
             (filter (\<lambda>s. min_pattern_frequency tr \<le> length (bucket data s))
                (dict_fromkeys (map create_pattern_signature data)))))"

section \<open>Properties\<close>

subsection \<open>Strings\<close>

lemma starts_with_iff: "starts_with p s \<longleftrightarrow> (\<exists>post. s = p @ post)"
  by (induction p s rule: starts_with.induct) auto

lemma str_in_iff: "str_in sub s \<longleftrightarrow> (\<exists>pre post. s = pre @ sub @ post)"
proof (induction s)
  case Nil
  then show ?case by auto
next
  case (Cons c cs)
  show ?case
  proof
    assume "str_in sub (c # cs)"
    then consider "starts_with sub (c # cs)" | "str_in sub cs" by auto
    then show "\<exists>pre post. c # cs = pre @ sub @ post"
    proof cases
      case 1
      then obtain post where "c # cs = sub @ post" by (auto simp: starts_with_iff)
      then have "c # cs = [] @ sub @ post" by simp
      then show ?thesis by blast
    next
      case 2
      then obtain pre post where "cs = pre @ sub @ post" using Cons.IH by blast
      then have "c # cs = (c # pre) @ sub @ post" by simp
      then show ?thesis by blast
    qed
  next
    assume "\<exists>pre post. c # cs = pre @ sub @ post"
    then obtain pre post where eq: "c # cs = pre @ sub @ post" by blast
    show "str_in sub (c # cs)"
    proof (cases pre)
      case Nil
      with eq have "starts_with sub (c # cs)" by (auto simp: starts_with_iff)
      then show ?thesis by simp
    next
      case (Cons a pre')
      with eq have "cs = pre' @ sub @ post" by simp
      then have "str_in sub cs" using Cons.IH by blast
      then show ?thesis by simp
    qed
  qed
qed

lemma split_not_Nil: "split sep s \<noteq> []"
  by (induction s) (auto split: list.splits)

lemma hd_split: "hd (split sep s) = takeWhile (\<lambda>c. c \<noteq> sep) s"
  using split_not_Nil [of sep] by (induction s) (auto split: list.splits)

subsection \<open>Context matching\<close>

lemma context_matches_pattern_nonempty:
  "\<forall>pc \<in> set pcs. pc \<noteq> [] \<Longrightarrow>
   context_matches_pattern ctx pcs =
     Inr (\<exists>pc \<in> set pcs. real (count_matches ctx pc) / real (length pc) \<ge> 0.6)"
  by (induction pcs) (auto simp: Let_def)

lemma count_matches_three_of_five: "count_matches query_three_of_five stored_context = 3"
  by (simp add: query_three_of_five_def stored_context_def lower_def lower_char_def
      str_int_def str_nat.simps digit_char_def)

lemma count_matches_two_of_five: "count_matches query_two_of_five stored_context = 2"
  by (simp add: query_two_of_five_def stored_context_def lower_def lower_char_def
      str_int_def str_nat.simps digit_char_def)

text \<open>
  C1. The claim: a pattern context with no key is a match failure, and the call returns
  normally. The code divides by the number of keys without a guard: on a query context
  and the pattern list \<^verbatim>\<open>[{}]\<close> it raises \<^verbatim>\<open>ZeroDivisionError\<close>.
\<close>

theorem context_matches_pattern_empty_raises:
  "context_matches_pattern [(''file_type'', PStr ''javascript'')] [[]] = Inl ZeroDivisionError"
  by simp

text \<open>
  The same failure from the public entry point: after three events with an empty context,
  asking for recommendations raises instead of returning a list.
\<close>

lemma get_recommendations_empty_context_raises:
  "get_recommendations demo_runtime (init_tracker ''demo'') 63835600000000000
     \<lparr>learning_db = empty_context_log, insights_db = [], global_db = []\<rparr>
     ''sherlock'' [(''file_type'', PStr ''javascript'')] = Inl ZeroDivisionError"
  by (simp add: get_recommendations_def analyze_patterns_def empty_context_log_def
      demo_runtime_def parse_digits_def digit_value_def microseconds_per_day_def init_tracker_def
      timedelta_days_def datetime_sub_def datetime_max_def
      filter_by_field_def pattern_groups_def create_pattern_signature_def
      generate_pattern_insight_def is_successful_def lower_def lower_char_def
      extract_recommendations_def outcome_recommendations_def py_max_def sort_reverse_def
      insight_key_def Let_def)

text \<open>
  C7. For a stored pattern context with at least one key, a query whose fraction of
  matched keys is exactly 0.6 is accepted and a query whose fraction is below 0.6 is
  rejected.
\<close>

theorem context_match_threshold:
  assumes "pattern_context \<noteq> []"
  shows "(real (count_matches ctx pattern_context) / real (length pattern_context) = 0.6 \<longrightarrow>
            context_matches_pattern ctx [pattern_context] = Inr True) \<and>
         (real (count_matches ctx pattern_context) / real (length pattern_context) < 0.6 \<longrightarrow>
            context_matches_pattern ctx [pattern_context] = Inr False)"
  using assms by (simp add: Let_def)

theorem context_match_threshold_witness:
  "stored_context \<noteq> [] \<and>
   real (count_matches query_three_of_five stored_context) / real (length stored_context) = 0.6 \<and>
   context_matches_pattern query_three_of_five [stored_context] = Inr True \<and>
   real (count_matches query_two_of_five stored_context) / real (length stored_context) < 0.6 \<and>
   context_matches_pattern query_two_of_five [stored_context] = Inr False"
proof -
  have ne: "stored_context \<noteq> []" and len: "length stored_context = 5"
    by (simp_all add: stored_context_def)
  have three: "real (count_matches query_three_of_five stored_context) / real (length stored_context) = 0.6"
    by (simp add: count_matches_three_of_five len)
  have two: "real (count_matches query_two_of_five stored_context) / real (length stored_context) < 0.6"
    by (simp add: count_matches_two_of_five len)
  from context_match_threshold [OF ne, of query_three_of_five] three
  have "context_matches_pattern query_three_of_five [stored_context] = Inr True" by blast
  moreover from context_match_threshold [OF ne, of query_two_of_five] two
  have "context_matches_pattern query_two_of_five [stored_context] = Inr False" by blast
  ultimately show ?thesis using ne three two by blast
qed

subsection \<open>Insights of a bucket\<close>

lemma generate_pattern_insight_empty:
  "generate_pattern_insight rt signature [] = Inl ValueError"
  by (simp add: generate_pattern_insight_def py_max_def)

lemma generate_pattern_insight_nonempty:
  assumes "entries \<noteq> []"
  shows "generate_pattern_insight rt signature entries =
     Inr \<lparr>pattern_id = take 12 (sha256_hexdigest rt signature),
          pattern_type = hd (split CHR ''_'' signature),
          frequency = length entries,
          success_rate = real (length (filter is_successful entries)) / real (length entries),
          contexts = map entry_context entries,
          agents = list_of_set rt (map agent entries),
          projects = list_of_set rt (map project entries),
          recommendations = extract_recommendations rt (filter is_successful entries),
          last_seen = foldl max (timestamp (hd entries)) (map timestamp (tl entries))\<rparr>"
  using assms by (cases entries) (auto simp: generate_pattern_insight_def py_max_def Let_def)

lemma four_events_successful:
  "filter is_successful four_events = [bug_fix_event, low_confidence_success, confident_event]"
  by (simp add: four_events_def is_successful_def bug_fix_event_def low_confidence_success_def
      failed_event_def confident_event_def lower_def lower_char_def)

text \<open>
  C8. For a bucket with at least one event, the insight that
  \<^verbatim>\<open>_generate_pattern_insight\<close> returns has a success rate between 0 and 1 and a
  frequency equal to the size of the bucket and to the length of its list of contexts.
\<close>

theorem pattern_insight_rate_and_frequency:
  assumes "entries \<noteq> []"
  shows "\<exists>insight. generate_pattern_insight rt signature entries = Inr insight \<and>
           0 \<le> success_rate insight \<and> success_rate insight \<le> 1 \<and>
           frequency insight = length entries \<and>
           frequency insight = length (contexts insight)"
proof -
  have "length (filter is_successful entries) \<le> length entries" by simp
  then have "real (length (filter is_successful entries)) / real (length entries) \<le> 1"
    using assms by (simp add: divide_le_eq_1)
  then show ?thesis
    using assms by (simp add: generate_pattern_insight_nonempty)
qed

theorem pattern_insight_rate_and_frequency_witness:
  "four_events \<noteq> [] \<and>
   (\<exists>insight. generate_pattern_insight demo_runtime ''bug_fix_error_type_file_type'' four_events
                 = Inr insight \<and>
      0 \<le> success_rate insight \<and> success_rate insight \<le> 1 \<and>
      frequency insight = 4 \<and> length (contexts insight) = 4)"
proof -
  have ne: "four_events \<noteq> []" and len: "length four_events = 4"
    by (simp_all add: four_events_def)
  from pattern_insight_rate_and_frequency [OF ne, of demo_runtime "''bug_fix_error_type_file_type''"]
  show ?thesis using ne len by auto
qed

text \<open>
  C3. An event counts as successful exactly when its lower-cased outcome contains the
  marker \<^verbatim>\<open>success\<close> or its confidence is above 0.7, either alone being enough, and the
  success rate of a bucket is the number of these events divided by the size of the bucket.
\<close>

theorem success_rate_marker_or_confidence:
  assumes "entries \<noteq> []"
  shows "\<exists>insight. generate_pattern_insight rt signature entries = Inr insight \<and>
           success_rate insight =
             real (length (filter (\<lambda>e. (\<exists>pre post. lower (outcome e) = pre @ ''success'' @ post) \<or>
                                         confidence e > 0.7) entries))
               / real (length entries)"
proof -
  have "is_successful =
          (\<lambda>e. (\<exists>pre post. lower (outcome e) = pre @ ''success'' @ post) \<or> confidence e > 0.7)"
    by (rule ext) (simp add: is_successful_def str_in_iff)
  then show ?thesis
    using assms by (simp add: generate_pattern_insight_nonempty)
qed

theorem success_rate_marker_or_confidence_witness:
  "four_events \<noteq> [] \<and>
   (\<exists>insight. generate_pattern_insight demo_runtime ''bug_fix_error_type_file_type'' four_events
                 = Inr insight \<and> success_rate insight = 3 / 4)"
proof -
  have ne: "four_events \<noteq> []" and len: "length four_events = 4"
    by (simp_all add: four_events_def)
  have "(\<lambda>e. (\<exists>pre post. lower (outcome e) = pre @ ''success'' @ post) \<or> confidence e > 0.7)
          = is_successful"
    by (rule ext) (simp add: is_successful_def str_in_iff)
  then have "filter (\<lambda>e. (\<exists>pre post. lower (outcome e) = pre @ ''success'' @ post) \<or>
                      confidence e > 0.7) four_events = filter is_successful four_events"
    by (rule arg_cong)
  then have "length (filter (\<lambda>e. (\<exists>pre post. lower (outcome e) = pre @ ''success'' @ post) \<or>
                      confidence e > 0.7) four_events) = 3"
    by (simp only: four_events_successful) simp
  with success_rate_marker_or_confidence [OF ne, of demo_runtime "''bug_fix_error_type_file_type''"]
  show ?thesis using ne len by auto
qed

lemma takeWhile_signature:
  "takeWhile (\<lambda>c. c \<noteq> CHR ''_'') (create_pattern_signature e) =
   takeWhile (\<lambda>c. c \<noteq> CHR ''_'') (LearningEntry.pattern_type e)"
proof (cases "\<forall>c \<in> set (LearningEntry.pattern_type e). c \<noteq> CHR ''_''")
  case True
  then have a: "takeWhile (\<lambda>c. c \<noteq> CHR ''_'') (create_pattern_signature e) =
      LearningEntry.pattern_type e"
    by (simp add: create_pattern_signature_def Let_def)
  from True have b: "takeWhile (\<lambda>c. c \<noteq> CHR ''_'') (LearningEntry.pattern_type e) =
      LearningEntry.pattern_type e"
    by simp
  show ?thesis by (simp only: a b)
next
  case False
  then obtain c where "c \<in> set (LearningEntry.pattern_type e)" "\<not> c \<noteq> CHR ''_''" by blast
  then show ?thesis
    unfolding create_pattern_signature_def Let_def by (rule takeWhile_append1)
qed

text \<open>
  C10. The \<open>pattern_type\<close> of the insight generated for the bucket of an event is the text
  of the grouping signature before its first underscore, which is the text of the event's
  category before its first underscore: it is the category exactly when the category has
  no underscore, and \<^verbatim>\<open>bug\<close> for the category \<^verbatim>\<open>bug_fix\<close>.
\<close>

theorem insight_pattern_type_is_prefix:
  assumes "e \<in> set entries"
  shows "\<exists>insight. generate_pattern_insight rt (create_pattern_signature e) entries = Inr insight \<and>
           pattern_type insight = takeWhile (\<lambda>c. c \<noteq> CHR ''_'') (create_pattern_signature e) \<and>
           pattern_type insight = takeWhile (\<lambda>c. c \<noteq> CHR ''_'') (LearningEntry.pattern_type e) \<and>
           (pattern_type insight = LearningEntry.pattern_type e \<longleftrightarrow>
              CHR ''_'' \<notin> set (LearningEntry.pattern_type e)) \<and>
           (LearningEntry.pattern_type e = ''bug_fix'' \<longrightarrow> pattern_type insight = ''bug'')"
proof -
  from assms have ne: "entries \<noteq> []" by auto
  have eq: "(takeWhile (\<lambda>c. c \<noteq> CHR ''_'') (LearningEntry.pattern_type e) =
             LearningEntry.pattern_type e)
      \<longleftrightarrow> CHR ''_'' \<notin> set (LearningEntry.pattern_type e)"
    by auto
  show ?thesis
    using eq by (auto simp: generate_pattern_insight_nonempty [OF ne] hd_split takeWhile_signature)
qed

theorem insight_pattern_type_is_prefix_witness:
  "bug_fix_event \<in> set four_events \<and>
   LearningEntry.pattern_type bug_fix_event = ''bug_fix'' \<and>
   (\<exists>insight. generate_pattern_insight demo_runtime (create_pattern_signature bug_fix_event)
                 four_events = Inr insight \<and>
      pattern_type insight = ''bug'' \<and>
      pattern_type insight \<noteq> LearningEntry.pattern_type bug_fix_event)"
proof -
  have h: "bug_fix_event \<in> set four_events" by (simp add: four_events_def)
  have bf: "LearningEntry.pattern_type bug_fix_event = ''bug_fix''"
    by (simp add: bug_fix_event_def)
  from insight_pattern_type_is_prefix [OF h, of demo_runtime] obtain insight where
    g: "generate_pattern_insight demo_runtime (create_pattern_signature bug_fix_event) four_events
          = Inr insight"
    and b: "LearningEntry.pattern_type bug_fix_event = ''bug_fix'' \<longrightarrow> pattern_type insight = ''bug''"
    by blast
  from b bf have "pattern_type insight = ''bug''" by blast
  with g h bf show ?thesis by auto
qed

subsection \<open>Recording an event\<close>

lemma update_pattern_insights_returns:
  "\<not> holds_global_insight st (agent entry @ ''_'' @ LearningEntry.pattern_type entry) \<Longrightarrow>
   \<exists>st'. update_pattern_insights w st entry = Inr st' \<and> learning_db st' = learning_db st"
  by (auto simp: update_pattern_insights_def holds_global_insight_def Let_def
           split: option.splits insight_value.splits)

lemma record_learning_returns:
  assumes "\<not> holds_global_insight st (ag @ ''_'' @ pt)"
  shows "fst (record_learning rt tr now w1 w2 st ag pt ctx outc conf tgs) =
           Inr (entry_hash_id rt (isoformat rt now) ag pt ctx outc) \<and>
         map hash_id (learning_db (snd (record_learning rt tr now Written w2 st ag pt ctx outc conf tgs))) =
           map hash_id (learning_db st) @ [entry_hash_id rt (isoformat rt now) ag pt ctx outc]"
proof -
  let ?entry = "\<lparr>timestamp = isoformat rt now, agent = ag, project = project_name tr,
                   LearningEntry.pattern_type = pt, entry_context = ctx, outcome = outc,
                   confidence = conf, tags = (case tgs of None \<Rightarrow> [] | Some t \<Rightarrow> t),
                   hash_id = entry_hash_id rt (isoformat rt now) ag pt ctx outc\<rparr>"
  let ?st1 = "\<lambda>w. st\<lparr>learning_db := save_json w [] (learning_db st) (learning_db st @ [?entry])\<rparr>"
  have "\<not> holds_global_insight (?st1 w) (agent ?entry @ ''_'' @ LearningEntry.pattern_type ?entry)"
    for w
    using assms by (simp add: holds_global_insight_def)
  then have "\<exists>st'. update_pattern_insights w2 (?st1 w) ?entry = Inr st' \<and>
                  learning_db st' = learning_db (?st1 w)" for w
    by (rule update_pattern_insights_returns)
  then obtain sa sb where
    a: "update_pattern_insights w2 (?st1 w1) ?entry = Inr sa" and
    b: "update_pattern_insights w2 (?st1 Written) ?entry = Inr sb"
       "learning_db sb = learning_db (?st1 Written)"
    by blast
  from a have "fst (record_learning rt tr now w1 w2 st ag pt ctx outc conf tgs) =
           Inr (entry_hash_id rt (isoformat rt now) ag pt ctx outc)"
    by (simp add: record_learning_def Let_def)
  moreover from b have
    "map hash_id (learning_db (snd (record_learning rt tr now Written w2 st ag pt ctx outc conf tgs))) =
           map hash_id (learning_db st) @ [entry_hash_id rt (isoformat rt now) ag pt ctx outc]"
    by (simp add: record_learning_def Let_def save_json_def)
  ultimately show ?thesis by blast
qed

text \<open>
  C9. Two calls of \<^verbatim>\<open>record_learning\<close> with the same timestamp, agent, category, context
  and outcome return the same id, whatever the project, the confidence, the tags and the
  stored data are: the id is the hash of these five fields, and it is the id of the event
  appended to the log. The calls return unless the insight index holds a global insight
  under the key of the agent and category.
\<close>

theorem record_learning_id_of_five_fields:
  assumes "isoformat rt now1 = isoformat rt now2"
    and "\<not> holds_global_insight st1 (ag @ ''_'' @ pt)"
    and "\<not> holds_global_insight st2 (ag @ ''_'' @ pt)"
  shows "\<exists>h. fst (record_learning rt tr1 now1 w1 w2 st1 ag pt ctx outc conf1 tags1) = Inr h \<and>
             fst (record_learning rt tr2 now2 w3 w4 st2 ag pt ctx outc conf2 tags2) = Inr h \<and>
             h = entry_hash_id rt (isoformat rt now1) ag pt ctx outc \<and>
             map hash_id (learning_db (snd (record_learning rt tr1 now1 Written w2 st1 ag pt ctx outc conf1 tags1))) =
               map hash_id (learning_db st1) @ [h] \<and>
             map hash_id (learning_db (snd (record_learning rt tr2 now2 Written w4 st2 ag pt ctx outc conf2 tags2))) =
               map hash_id (learning_db st2) @ [h]"
  using assms by (simp add: record_learning_returns)

theorem record_learning_id_of_five_fields_witness:
  "isoformat demo_runtime 63835600000000000 = isoformat demo_runtime 63835600000000000 \<and>
   \<not> holds_global_insight empty_store (''sherlock'' @ ''_'' @ ''bug_fix'') \<and>
   \<not> holds_global_insight (empty_store\<lparr>learning_db := four_events\<rparr>) (''sherlock'' @ ''_'' @ ''bug_fix'') \<and>
   (\<exists>h. fst (record_learning demo_runtime (init_tracker ''alpha'') 63835600000000000 Written Written
               empty_store ''sherlock'' ''bug_fix'' stored_context ''Successfully fixed'' 0.9 None)
           = Inr h \<and>
         fst (record_learning demo_runtime (init_tracker ''beta'') 63835600000000000 Unchanged Truncated
               (empty_store\<lparr>learning_db := four_events\<rparr>) ''sherlock'' ''bug_fix'' stored_context
               ''Successfully fixed'' 0.1 (Some [''debugging'']))
           = Inr h)"
proof -
  have a: "\<not> holds_global_insight empty_store (''sherlock'' @ ''_'' @ ''bug_fix'')"
    by (simp add: holds_global_insight_def empty_store_def)
  have b: "\<not> holds_global_insight (empty_store\<lparr>learning_db := four_events\<rparr>)
              (''sherlock'' @ ''_'' @ ''bug_fix'')"
    by (simp add: holds_global_insight_def empty_store_def)
  from record_learning_id_of_five_fields
      [where rt = demo_runtime and ?now1.0 = 63835600000000000 and ?now2.0 = 63835600000000000
         and ?st1.0 = empty_store and ?st2.0 = "empty_store\<lparr>learning_db := four_events\<rparr>"
         and ag = "''sherlock''" and pt = "''bug_fix''" and ctx = stored_context
         and outc = "''Successfully fixed''"
         and ?tr1.0 = "init_tracker ''alpha''" and ?w1.0 = Written and ?w2.0 = Written
         and ?conf1.0 = "0.9" and ?tags1.0 = None
         and ?tr2.0 = "init_tracker ''beta''" and ?w3.0 = Unchanged and ?w4.0 = Truncated
         and ?conf2.0 = "0.1" and ?tags2.0 = "Some [''debugging'']", OF refl a b]
  show ?thesis using a b by blast
qed

subsection \<open>Grouping\<close>

lemma dict_fromkeys_snoc:
  "dict_fromkeys (xs @ [x]) =
     (if x \<in> set (dict_fromkeys xs) then dict_fromkeys xs else dict_fromkeys xs @ [x])"
  by (simp add: dict_fromkeys_def)

lemma set_dict_fromkeys [simp]: "set (dict_fromkeys xs) = set xs"
  by (induction xs rule: rev_induct) (auto simp: dict_fromkeys_snoc, simp add: dict_fromkeys_def)

lemma distinct_dict_fromkeys [simp]: "distinct (dict_fromkeys xs)"
  by (induction xs rule: rev_induct) (auto simp: dict_fromkeys_snoc, simp add: dict_fromkeys_def)

lemma pattern_groups_snoc:
  "pattern_groups key (xs @ [x]) = group_append (key x) x (pattern_groups key xs)"
  by (simp add: pattern_groups_def)

lemma group_append_map:
  assumes "distinct ks"
  shows "group_append k x (map (\<lambda>k'. (k', g k')) ks) =
     (if k \<in> set ks then map (\<lambda>k'. (k', if k' = k then g k' @ [x] else g k')) ks
      else map (\<lambda>k'. (k', g k')) ks @ [(k, [x])])"
  using assms by (induction ks) auto

lemma pattern_groups_eq:
  "pattern_groups key xs =
     map (\<lambda>k. (k, filter (\<lambda>e. key e = k) xs)) (dict_fromkeys (map key xs))"
proof (induction xs rule: rev_induct)
  case Nil
  show ?case by (simp add: pattern_groups_def dict_fromkeys_def)
next
  case (snoc x xs)
  have none: "filter (\<lambda>e. key e = key x) xs = []" if "key x \<notin> key ` set xs"
  proof -
    have "key e \<noteq> key x" if "e \<in> set xs" for e
      using that \<open>key x \<notin> key ` set xs\<close> by (metis imageI)
    then show ?thesis by (simp add: filter_empty_conv)
  qed
  show ?case
    by (auto simp: pattern_groups_snoc snoc.IH group_append_map dict_fromkeys_snoc none)
qed

subsection \<open>Synchronisation\<close>

lemma sync_uploaded:
  "uploaded (fst (sync_with_global rt tr w1 w2 st)) =
     length (filter (\<lambda>e. hash_id e \<notin> hash_id ` set (global_db st)) (learning_db st))"
  by (simp add: sync_with_global_def Let_def split_def)

lemma sync_store:
  "learning_db (snd (sync_with_global rt tr w1 w2 st)) = learning_db st \<and>
   global_db (snd (sync_with_global rt tr w1 w2 st)) =
     save_json w1 [] (global_db st) (merged_global st)"
  by (simp add: sync_with_global_def Let_def split_def merged_global_def)

lemma sync_example_uploaded:
  "length (learning_db sync_example) = 5 \<and>
   length (filter (\<lambda>e. hash_id e \<in> hash_id ` set (global_db sync_example)) (learning_db sync_example)) = 2 \<and>
   uploaded (fst (sync_with_global rt tr w1 w2 sync_example)) = 3"
  by (simp add: sync_uploaded sync_example_def local_five_def global_seven_def mk_event_def)

text \<open>
  C4. \<^verbatim>\<open>sync_with_global\<close> reports as uploaded the number of local events whose id is not
  among the ids of the global log, so that uploaded and the local events already global
  add up to the local total (five local events, two of them global: three uploaded). A
  second call on the files the first one left, the global log written, uploads nothing.
\<close>

theorem sync_uploaded_new_ids_and_idempotent:
  "uploaded (fst (sync_with_global rt tr w1 w2 st)) =
     length (filter (\<lambda>e. hash_id e \<notin> hash_id ` set (global_db st)) (learning_db st)) \<and>
   uploaded (fst (sync_with_global rt tr w1 w2 st)) +
     length (filter (\<lambda>e. hash_id e \<in> hash_id ` set (global_db st)) (learning_db st)) =
     length (learning_db st) \<and>
   uploaded (fst (sync_with_global rt' tr' w3 w4 (snd (sync_with_global rt tr Written w2 st)))) = 0"
proof -
  have a: "length (filter (\<lambda>e. hash_id e \<notin> hash_id ` set (global_db st)) (learning_db st)) +
     length (filter (\<lambda>e. hash_id e \<in> hash_id ` set (global_db st)) (learning_db st)) =
     length (learning_db st)"
    using sum_length_filter_compl [of "\<lambda>e. hash_id e \<in> hash_id ` set (global_db st)" "learning_db st"]
    by simp
  have b: "filter (\<lambda>e. hash_id e \<notin> hash_id ` set (merged_global st)) (learning_db st) = []"
    by (auto simp: filter_empty_conv merged_global_def)
  show ?thesis
    using a b by (simp add: sync_uploaded sync_store save_json_def)
qed

lemma map_of_dict_set: "map_of (dict_set k v d) = (map_of d)(k \<mapsto> v)"
  by (induction d) (auto simp: fun_eq_iff)

lemma merge_insights_index:
  assumes "distinct (map fst gi)"
  shows "map_of (fst (merge_insights name gi (idx, n))) k =
     (case map_of gi k of
        Some v \<Rightarrow> (if is_insight_relevant v name then Some v else map_of idx k)
      | None \<Rightarrow> map_of idx k)"
  using assms
proof (induction gi arbitrary: idx n k)
  case Nil
  then show ?case by simp
next
  case (Cons a gi)
  obtain k' v' where a: "a = (k', v')" by (cases a)
  from Cons.prems a have nk: "map_of gi k' = None" and d: "distinct (map fst gi)"
    by (auto simp: map_of_eq_None_iff)
  show ?case
    using nk by (auto simp: a Cons.IH [OF d] map_of_dict_set split: option.splits)
qed

lemma merge_insights_count:
  "snd (merge_insights name gi (idx, n)) = n + length (filter (\<lambda>(k, v). is_insight_relevant v name) gi)"
  by (induction gi arbitrary: idx n) auto

lemma analyze_global_patterns_eq:
  "analyze_global_patterns rt data =
     map (\<lambda>k. (k, global_insight rt (global_group data k)))
       (filter (\<lambda>k. length (global_group data k) \<ge> 5) (dict_fromkeys (map global_pattern_key data)))"
  by (simp add: analyze_global_patterns_def pattern_groups_eq filter_map comp_def global_group_def)

lemma distinct_analyze_global_patterns:
  "distinct (map fst (analyze_global_patterns rt data))"
  by (simp add: analyze_global_patterns_eq comp_def)

lemma map_of_analyze_global_patterns:
  "map_of (analyze_global_patterns rt data) k =
     (if length (global_group data k) \<ge> 5 then Some (global_insight rt (global_group data k))
      else None)"
proof (cases "length (global_group data k) \<ge> 5")
  case True
  then have "global_group data k \<noteq> []" by auto
  then have "k \<in> set (map global_pattern_key data)"
    by (auto simp: global_group_def filter_empty_conv)
  with True have "k \<in> set (filter (\<lambda>k. length (global_group data k) \<ge> 5)
      (dict_fromkeys (map global_pattern_key data)))" by simp
  then show ?thesis
    using True unfolding analyze_global_patterns_eq
    by (simp add: map_of_map_restrict del: set_filter)
next
  case False
  then show ?thesis
    unfolding analyze_global_patterns_eq
    by (simp add: map_of_map_restrict)
qed

text \<open>
  C5. The global analysis yields a candidate insight under a category-and-agent key exactly
  when five or more events of the global log have that key. After a sync the local insight
  index holds the candidate under its key exactly when its success rate is above 0.8 and
  its events come from more than two distinct projects; under every other key the index is
  as before. \<^verbatim>\<open>list(set(xs))\<close> is taken to list each element of \<open>xs\<close> once.
\<close>

theorem global_insight_candidates_and_import:
  assumes "\<forall>xs. distinct (list_of_set rt xs) \<and> set (list_of_set rt xs) = set xs"
  shows "map_of (analyze_global_patterns rt data) k =
           (if 5 \<le> length (global_group data k)
            then Some (global_insight rt (global_group data k)) else None) \<and>
         map_of (insights_db (snd (sync_with_global rt tr w1 Written st))) k =
           (let es = global_group (merged_global st) k in
            if 5 \<le> length es \<and>
               real (length (filter (\<lambda>e. confidence e > 0.7) es)) / real (length es) > 0.8 \<and>
               card (project ` set es) > 2
            then Some (global_insight rt es) else map_of (insights_db st) k)"
proof -
  have len: "length (list_of_set rt xs) = card (set xs)" for xs
    using assms distinct_card [of "list_of_set rt xs"] by simp
  have rel: "is_insight_relevant (global_insight rt es) name \<longleftrightarrow>
       real (length (filter (\<lambda>e. confidence e > 0.7) es)) / real (length es) > 0.8 \<and>
       card (project ` set es) > 2" for es name
    by (simp add: global_insight_def len)
  have idx: "insights_db (snd (sync_with_global rt tr w1 Written st)) =
      fst (merge_insights (project_name tr) (analyze_global_patterns rt (merged_global st))
             (insights_db st, 0))"
    by (simp add: sync_with_global_def Let_def split_def merged_global_def save_json_def)
  show ?thesis
    by (simp add: idx merge_insights_index [OF distinct_analyze_global_patterns]
        map_of_analyze_global_patterns rel Let_def)
qed

lemma demo_runtime_set: "\<forall>xs. distinct (list_of_set demo_runtime xs) \<and> set (list_of_set demo_runtime xs) = set xs"
  by (simp add: demo_runtime_def)

lemma merged_example:
  "merged_global sync_example = global_seven @
     [mk_event ''h1'' ''demo'' ''edison'' ''refactor'' 0.9,
      mk_event ''h3'' ''demo'' ''sherlock'' ''bug_fix'' 0.9,
      mk_event ''h5'' ''demo'' ''sherlock'' ''bug_fix'' 0.9]"
  by (simp add: merged_global_def sync_example_def local_five_def global_seven_def mk_event_def)

lemma group_refactor:
  "global_group (merged_global sync_example) ''refactor_edison'' =
     [mk_event ''h2'' ''demo'' ''edison'' ''refactor'' 0.9,
      mk_event ''g1'' ''shop'' ''edison'' ''refactor'' 0.9,
      mk_event ''g2'' ''blog'' ''edison'' ''refactor'' 0.9,
      mk_event ''g3'' ''blog'' ''edison'' ''refactor'' 0.6,
      mk_event ''g6'' ''wiki'' ''edison'' ''refactor'' 0.9,
      mk_event ''h1'' ''demo'' ''edison'' ''refactor'' 0.9]"
  by (simp add: merged_example global_seven_def global_group_def global_pattern_key_def mk_event_def)

lemma group_bug_fix:
  "global_group (merged_global sync_example) ''bug_fix_sherlock'' =
     [mk_event ''h4'' ''demo'' ''sherlock'' ''bug_fix'' 0.9,
      mk_event ''g4'' ''shop'' ''sherlock'' ''bug_fix'' 0.9,
      mk_event ''g5'' ''shop'' ''sherlock'' ''bug_fix'' 0.9,
      mk_event ''h3'' ''demo'' ''sherlock'' ''bug_fix'' 0.9,
      mk_event ''h5'' ''demo'' ''sherlock'' ''bug_fix'' 0.9]"
  by (simp add: merged_example global_seven_def global_group_def global_pattern_key_def mk_event_def)

lemma refactor_group_facts:
  "length (global_group (merged_global sync_example) ''refactor_edison'') = 6"
  "length (filter (\<lambda>e. confidence e > 0.7) (global_group (merged_global sync_example) ''refactor_edison'')) = 5"
  "card (project ` set (global_group (merged_global sync_example) ''refactor_edison'')) = 4"
  "global_insight demo_runtime (global_group (merged_global sync_example) ''refactor_edison'') =
     GlobalInsight 6 [''shop'', ''blog'', ''wiki'', ''demo''] (5 / 6)"
  by (simp_all add: group_refactor mk_event_def global_insight_def demo_runtime_def card_insert_if)

lemma bug_fix_group_facts:
  "length (global_group (merged_global sync_example) ''bug_fix_sherlock'') = 5"
  "length (filter (\<lambda>e. confidence e > 0.7) (global_group (merged_global sync_example) ''bug_fix_sherlock'')) = 5"
  "card (project ` set (global_group (merged_global sync_example) ''bug_fix_sherlock'')) = 2"
  by (simp_all add: group_bug_fix mk_event_def card_insert_if)

theorem global_insight_candidates_and_import_witness:
  "(\<forall>xs. distinct (list_of_set demo_runtime xs) \<and> set (list_of_set demo_runtime xs) = set xs) \<and>
   map_of (insights_db (snd (sync_with_global demo_runtime (init_tracker ''demo'') Written Written
        sync_example))) ''refactor_edison'' =
     Some (GlobalInsight 6 [''shop'', ''blog'', ''wiki'', ''demo''] (5 / 6)) \<and>
   map_of (insights_db (snd (sync_with_global demo_runtime (init_tracker ''demo'') Written Written
        sync_example))) ''bug_fix_sherlock'' = None"
proof -
  have t: "map_of (insights_db (snd (sync_with_global demo_runtime (init_tracker ''demo'') Written
        Written sync_example))) k =
           (let es = global_group (merged_global sync_example) k in
            if 5 \<le> length es \<and>
               real (length (filter (\<lambda>e. confidence e > 0.7) es)) / real (length es) > 0.8 \<and>
               card (project ` set es) > 2
            then Some (global_insight demo_runtime es) else map_of (insights_db sync_example) k)" for k
    using global_insight_candidates_and_import [OF demo_runtime_set] by blast
  have a: "map_of (insights_db (snd (sync_with_global demo_runtime (init_tracker ''demo'') Written Written
        sync_example))) ''refactor_edison'' =
     Some (GlobalInsight 6 [''shop'', ''blog'', ''wiki'', ''demo''] (5 / 6))"
    using t [of "''refactor_edison''"] unfolding Let_def refactor_group_facts by simp
  have "map_of (insights_db sync_example) ''bug_fix_sherlock'' = None"
    by (simp add: sync_example_def)
  then have b: "map_of (insights_db (snd (sync_with_global demo_runtime (init_tracker ''demo'') Written Written
        sync_example))) ''bug_fix_sherlock'' = None"
    using t [of "''bug_fix_sherlock''"] unfolding Let_def bug_fix_group_facts by simp
  from a b demo_runtime_set show ?thesis by blast
qed

subsection \<open>Pattern analysis\<close>

lemma filter_by_date_parsed:
  assumes "\<forall>e \<in> set entries. fromisoformat rt (timestamp e) \<noteq> None"
  shows "filter_by_date rt cutoff entries =
     Inr (filter (\<lambda>e. case fromisoformat rt (timestamp e) of Some t \<Rightarrow> t \<ge> cutoff | None \<Rightarrow> False)
            entries)"
  using assms by (induction entries) (auto split: option.splits)

lemma filter_by_field_eq:
  "filter_by_field field arg entries =
     filter (\<lambda>e. case arg of None \<Rightarrow> True | Some v \<Rightarrow> v = [] \<or> field e = v) entries"
  by (auto simp: filter_by_field_def split: option.splits)

lemma filtered_data_eq:
  "filter_by_field LearningEntry.pattern_type pt (filter_by_field agent ag
     (filter (\<lambda>e. case fromisoformat rt (timestamp e) of
                     Some t \<Rightarrow> t \<ge> now - days_back * microseconds_per_day | None \<Rightarrow> False)
        (learning_db st))) = analysed_events rt now st ag pt days_back"
  by (auto simp: filter_by_field_eq analysed_events_def in_analysis_def intro: filter_cong)

lemma collect_insights_nonempty:
  assumes "\<forall>(s, es) \<in> set groups. es \<noteq> []"
  shows "collect_insights rt tr groups =
     Inr (filter (\<lambda>i. min_confidence_threshold tr \<le> success_rate i)
            (map (\<lambda>(s, es). projr (generate_pattern_insight rt s es))
               (filter (\<lambda>(s, es). min_pattern_frequency tr \<le> length es) groups)))"
  using assms
proof (induction groups)
  case Nil
  then show ?case by simp
next
  case (Cons g groups)
  obtain s es where g: "g = (s, es)" by (cases g)
  with Cons.prems have ne: "es \<noteq> []" by simp
  from Cons have IH: "collect_insights rt tr groups =
     Inr (filter (\<lambda>i. min_confidence_threshold tr \<le> success_rate i)
            (map (\<lambda>(s, es). projr (generate_pattern_insight rt s es))
               (filter (\<lambda>(s, es). min_pattern_frequency tr \<le> length es) groups)))"
    by simp
  obtain i where i: "generate_pattern_insight rt s es = Inr i"
    using generate_pattern_insight_nonempty [OF ne] by blast
  show ?case
    by (simp add: g IH i)
qed

lemma collect_pattern_groups:
  "collect_insights rt tr (pattern_groups create_pattern_signature data) =
     Inr (filter (\<lambda>i. min_confidence_threshold tr \<le> success_rate i)
          (map (bucket_insight rt data)
             (filter (\<lambda>s. min_pattern_frequency tr \<le> length (bucket data s))
                (dict_fromkeys (map create_pattern_signature data)))))"
proof -
  have ne: "\<forall>(s, es) \<in> set (pattern_groups create_pattern_signature data). es \<noteq> []"
    by (auto simp: pattern_groups_eq filter_empty_conv)
  have "map (\<lambda>(s, es). projr (generate_pattern_insight rt s es))
          (filter (\<lambda>(s, es). min_pattern_frequency tr \<le> length es)
             (pattern_groups create_pattern_signature data)) =
        map (bucket_insight rt data)
             (filter (\<lambda>s. min_pattern_frequency tr \<le> length (bucket data s))
                (dict_fromkeys (map create_pattern_signature data)))"
    by (simp add: pattern_groups_eq filter_map comp_def bucket_insight_def bucket_def)
  then show ?thesis
    by (simp only: collect_insights_nonempty [OF ne])
qed

lemma cutoff_in_range_iff:
  "cutoff_in_range now days_back \<longleftrightarrow>
     (\<exists>delta. timedelta_days days_back = Inr delta \<and>
              datetime_sub now delta = Inr (now - days_back * microseconds_per_day))"
  by (auto simp: cutoff_in_range_def timedelta_days_def datetime_sub_def)

lemma analyze_patterns_overflow:
  assumes "\<not> cutoff_in_range now days_back"
  shows "analyze_patterns rt tr now st ag pt days_back = Inl OverflowError"
  using assms
  by (auto simp: analyze_patterns_def cutoff_in_range_def timedelta_days_def datetime_sub_def)

lemma analyze_patterns_parsed:
  assumes "cutoff_in_range now days_back"
    and "\<forall>e \<in> set (learning_db st). fromisoformat rt (timestamp e) \<noteq> None"
  shows "analyze_patterns rt tr now st ag pt days_back =
     Inr (ranked_insights rt tr (analysed_events rt now st ag pt days_back))"
proof -
  from assms(1) obtain delta where
    "timedelta_days days_back = Inr delta"
    "datetime_sub now delta = Inr (now - days_back * microseconds_per_day)"
    by (auto simp: cutoff_in_range_iff)
  then show ?thesis
    by (simp add: analyze_patterns_def Let_def filter_by_date_parsed [OF assms(2)] filtered_data_eq
        collect_pattern_groups ranked_insights_def)
qed

lemma removeAll_filter: "removeAll x (filter P xs) = filter (\<lambda>y. P y \<and> y \<noteq> x) xs"
  by (induction xs) auto

lemma foldl_fromkeys:
  "foldl (\<lambda>d x. if x \<in> set d then d else d @ [x]) acc xs =
     acc @ first_seen (filter (\<lambda>x. x \<notin> set acc) xs)"
proof (induction xs arbitrary: acc)
  case Nil
  show ?case by simp
next
  case (Cons x xs)
  show ?case
  proof (cases "x \<in> set acc")
    case True
    then show ?thesis by (simp add: Cons.IH)
  next
    case False
    have "filter (\<lambda>y. y \<notin> set (acc @ [x])) xs = removeAll x (filter (\<lambda>y. y \<notin> set acc) xs)"
      by (auto simp: removeAll_filter intro: filter_cong)
    with False show ?thesis by (simp add: Cons.IH)
  qed
qed

lemma dict_fromkeys_first_seen: "dict_fromkeys xs = first_seen xs"
  by (simp add: dict_fromkeys_def foldl_fromkeys)

lemma mset_sort_reverse: "mset (sort_reverse k xs) = mset xs"
  by (simp add: sort_reverse_def)

lemma sorted_sort_reverse: "sorted_wrt (\<lambda>a b. k a \<ge> k b) (sort_reverse k xs)"
proof -
  have "sorted (map k (sort_key k (rev xs)))" by simp
  then have "sorted_wrt (\<lambda>a b. k a \<le> k b) (sort_key k (rev xs))"
    by (simp add: sorted_map)
  then show ?thesis
    by (simp add: sort_reverse_def sorted_wrt_rev)
qed

lemma sort_reverse_stable:
  "filter (\<lambda>i. k i = v) (sort_reverse k xs) = filter (\<lambda>i. k i = v) xs"
proof -
  have "filter (\<lambda>i. k i = v) (sort_reverse k xs) = rev (filter (\<lambda>i. k i = v) (sort_key k (rev xs)))"
    by (simp add: sort_reverse_def rev_filter)
  also have "\<dots> = rev (filter (\<lambda>i. k i = v) (rev xs))"
    by (simp only: sort_key_stable)
  also have "\<dots> = filter (\<lambda>i. k i = v) xs"
    by (simp add: rev_filter)
  finally show ?thesis .
qed

lemma ranked_insights_candidates:
  "ranked_insights rt tr data = sort_reverse insight_key (ranking_candidates rt tr data)"
  by (simp add: ranked_insights_def ranking_candidates_def dict_fromkeys_first_seen)

lemma bucket_insight_fields:
  assumes "s \<in> create_pattern_signature ` set data"
  shows "frequency (bucket_insight rt data s) = length (bucket data s)"
    and "contexts (bucket_insight rt data s) = map entry_context (bucket data s)"
    and "success_rate (bucket_insight rt data s) =
           real (length (filter is_successful (bucket data s))) / real (length (bucket data s))"
proof -
  from assms have ne: "bucket data s \<noteq> []"
    by (auto simp: bucket_def filter_empty_conv)
  show "frequency (bucket_insight rt data s) = length (bucket data s)"
    and "contexts (bucket_insight rt data s) = map entry_context (bucket data s)"
    and "success_rate (bucket_insight rt data s) =
           real (length (filter is_successful (bucket data s))) / real (length (bucket data s))"
    by (simp_all add: bucket_insight_def generate_pattern_insight_nonempty [OF ne])
qed

lemma set_first_seen [simp]: "set (first_seen xs) = set xs"
  using set_dict_fromkeys [of xs] by (simp add: dict_fromkeys_first_seen)

lemma distinct_first_seen [simp]: "distinct (first_seen xs)"
  using distinct_dict_fromkeys [of xs] by (simp add: dict_fromkeys_first_seen)

lemma ranking_candidates_member:
  assumes "i \<in> set (ranking_candidates rt tr data)"
  shows "\<exists>s \<in> create_pattern_signature ` set data.
           i = bucket_insight rt data s \<and>
           min_pattern_frequency tr \<le> length (bucket data s) \<and>
           min_confidence_threshold tr \<le> success_rate i"
  using assms by (auto simp: ranking_candidates_def)

lemma analysis_example_parsed:
  "\<forall>e \<in> set (learning_db analysis_example).
      fromisoformat demo_runtime (timestamp e) \<noteq> None \<and> entry_context e \<noteq> []"
  by (simp add: analysis_example_def analysis_log_def log_event_def demo_runtime_def
      parse_digits_def digit_value_def)

lemma analysis_example_window:
  "analysed_events demo_runtime 63835600000000000 analysis_example (Some ''sherlock'') None 30 =
     tl analysis_log"
  "analysed_events demo_runtime 63835600000000001 analysis_example (Some ''sherlock'') None 30 =
     tl analysis_log"
  by (simp_all add: analysed_events_def in_analysis_def analysis_example_def analysis_log_def
      log_event_def demo_runtime_def parse_digits_def digit_value_def microseconds_per_day_def)

lemmas analysis_example_defs = analysis_example_def analysis_log_def log_event_def
      demo_runtime_def parse_digits_def digit_value_def microseconds_per_day_def init_tracker_def
      analyze_patterns_def timedelta_days_def datetime_sub_def datetime_max_def
      filter_by_field_def pattern_groups_def create_pattern_signature_def
      generate_pattern_insight_def is_successful_def lower_def lower_char_def
      extract_recommendations_def outcome_recommendations_def py_max_def sort_reverse_def
      insight_key_def Let_def

lemma analysis_example_insights: "analyze_patterns demo_runtime (init_tracker ''demo'') 63835600000000000 analysis_example (Some ''sherlock'') None 30 = Inr [bug_fix_insight, refactor_insight]"
  by (simp add: analysis_example_defs bug_fix_insight_def refactor_insight_def numeral_eq_Suc)

lemma analysis_example_cutoff:
  "cutoff_in_range 63835600000000000 30" "cutoff_in_range 63835600000000001 30"
  by (simp_all add: cutoff_in_range_def microseconds_per_day_def datetime_max_def)

text \<open>
  C2. The claim speaks of every value of \<open>days_back\<close>. The code computes the cutoff with
  \<^verbatim>\<open>datetime.now() - timedelta(days=days_back)\<close>, which raises \<^verbatim>\<open>OverflowError\<close> when the
  cutoff is not a datetime of the years 1 to 9999: in November 2023 a window of a million
  days returns no insights at all.
\<close>

theorem analyze_patterns_million_days_raises:
  "analyze_patterns demo_runtime (init_tracker ''demo'') 63835600000000000 analysis_example
     (Some ''sherlock'') None 1000000 = Inl OverflowError"
  by (simp add: analyze_patterns_def timedelta_days_def datetime_sub_def
      microseconds_per_day_def)

text \<open>
  C2, amended. When the cutoff is a datetime that Python can represent and every stored
  timestamp parses, \<^verbatim>\<open>analyze_patterns\<close> returns, for a clock reading, exactly the insights
  of the buckets of the analysed events that hold at least \<open>min_pattern_frequency\<close> events
  and have a success rate of at least \<open>min_confidence_threshold\<close>, each once; they are in
  descending order of frequency and, at equal frequency, of success rate, and insights
  with the same pair keep the order in which their signatures first occur. Every insight
  returned reaches both thresholds, so none has the rate 0.5 when the threshold is 0.7.
  The result is the same at every such clock reading that selects the same events.
\<close>

theorem analyze_patterns_ranked:
  assumes "cutoff_in_range now days_back"
    and "\<forall>e \<in> set (learning_db st). fromisoformat rt (timestamp e) \<noteq> None"
  shows "\<exists>insights.
           analyze_patterns rt tr now st ag pt days_back = Inr insights \<and>
           mset insights = mset (ranking_candidates rt tr (analysed_events rt now st ag pt days_back)) \<and>
           sorted_wrt (\<lambda>a b. frequency a > frequency b \<or>
                              (frequency a = frequency b \<and> success_rate a \<ge> success_rate b)) insights \<and>
           (\<forall>v. filter (\<lambda>i. (frequency i, success_rate i) = v) insights =
                filter (\<lambda>i. (frequency i, success_rate i) = v)
                  (ranking_candidates rt tr (analysed_events rt now st ag pt days_back))) \<and>
           (\<forall>i \<in> set insights. min_pattern_frequency tr \<le> frequency i \<and>
                                  min_confidence_threshold tr \<le> success_rate i) \<and>
           (min_confidence_threshold tr = 0.7 \<longrightarrow> (\<forall>i \<in> set insights. success_rate i \<noteq> 0.5)) \<and>
           (\<forall>now'. cutoff_in_range now' days_back \<and>
                    analysed_events rt now' st ag pt days_back =
                      analysed_events rt now st ag pt days_back \<longrightarrow>
                    analyze_patterns rt tr now' st ag pt days_back = Inr insights)"
proof -
  let ?data = "analysed_events rt now st ag pt days_back"
  let ?out = "ranked_insights rt tr ?data"
  have eq: "?out = sort_reverse insight_key (ranking_candidates rt tr ?data)"
    by (rule ranked_insights_candidates)
  have m: "mset ?out = mset (ranking_candidates rt tr ?data)"
    by (simp add: eq mset_sort_reverse)
  have "sorted_wrt (\<lambda>a b. insight_key a \<ge> insight_key b) ?out"
    unfolding eq by (rule sorted_sort_reverse)
  then have s: "sorted_wrt (\<lambda>a b. frequency a > frequency b \<or>
                              (frequency a = frequency b \<and> success_rate a \<ge> success_rate b)) ?out"
    by (rule sorted_wrt_mono_rel [rotated]) (auto simp: insight_key_def less_eq_prod_def)
  have st: "filter (\<lambda>i. (frequency i, success_rate i) = v) ?out =
                filter (\<lambda>i. (frequency i, success_rate i) = v) (ranking_candidates rt tr ?data)" for v
    using sort_reverse_stable [of insight_key v "ranking_candidates rt tr ?data"]
    by (simp add: eq insight_key_def)
  have mem: "min_pattern_frequency tr \<le> frequency i \<and> min_confidence_threshold tr \<le> success_rate i"
    if "i \<in> set ?out" for i
  proof -
    from that have "i \<in> set (ranking_candidates rt tr ?data)"
      using m by (metis set_mset_mset)
    then obtain s where "s \<in> create_pattern_signature ` set ?data"
      "i = bucket_insight rt ?data s" "min_pattern_frequency tr \<le> length (bucket ?data s)"
      "min_confidence_threshold tr \<le> success_rate i"
      using ranking_candidates_member by blast
    then show ?thesis by (simp add: bucket_insight_fields)
  qed
  have half: "success_rate i \<noteq> 0.5" if "min_confidence_threshold tr = 0.7" "i \<in> set ?out" for i
    using mem [OF that(2)] that(1) by auto
  have det: "analyze_patterns rt tr now' st ag pt days_back = Inr ?out"
    if "cutoff_in_range now' days_back" "analysed_events rt now' st ag pt days_back = ?data" for now'
    using that by (simp add: analyze_patterns_parsed [OF _ assms(2)])
  have "analyze_patterns rt tr now st ag pt days_back = Inr ?out"
    by (rule analyze_patterns_parsed [OF assms])
  with m s st mem half det show ?thesis by blast
qed

theorem analyze_patterns_ranked_witness:
  "cutoff_in_range 63835600000000000 30 \<and> cutoff_in_range 63835600000000001 30 \<and>
   min_confidence_threshold (init_tracker ''demo'') = 0.7 \<and>
   analysed_events demo_runtime 63835600000000001 analysis_example (Some ''sherlock'') None 30 =
     analysed_events demo_runtime 63835600000000000 analysis_example (Some ''sherlock'') None 30 \<and>
   (\<exists>insights.
      analyze_patterns demo_runtime (init_tracker ''demo'') 63835600000000000 analysis_example
        (Some ''sherlock'') None 30 = Inr insights \<and>
      insights = [bug_fix_insight, refactor_insight] \<and>
      map frequency insights = [4, 3] \<and>
      map success_rate insights = [3 / 4, 1] \<and>
      analyze_patterns demo_runtime (init_tracker ''demo'') 63835600000000001 analysis_example
        (Some ''sherlock'') None 30 = Inr insights)"
proof -
  have p: "\<forall>e \<in> set (learning_db analysis_example). fromisoformat demo_runtime (timestamp e) \<noteq> None"
    using analysis_example_parsed by blast
  have thr: "min_confidence_threshold (init_tracker ''demo'') = 0.7"
    by (simp add: init_tracker_def)
  have w: "analysed_events demo_runtime 63835600000000001 analysis_example (Some ''sherlock'') None 30 =
     analysed_events demo_runtime 63835600000000000 analysis_example (Some ''sherlock'') None 30"
    by (simp only: analysis_example_window)
  note c = analysis_example_cutoff
  from analyze_patterns_ranked [OF c(1) p, of "init_tracker ''demo''" "Some ''sherlock''" None]
  obtain insights where
    a: "analyze_patterns demo_runtime (init_tracker ''demo'') 63835600000000000 analysis_example
        (Some ''sherlock'') None 30 = Inr insights"
    and d: "\<forall>now'. cutoff_in_range now' 30 \<and>
                  analysed_events demo_runtime now' analysis_example (Some ''sherlock'') None 30 =
                      analysed_events demo_runtime 63835600000000000 analysis_example (Some ''sherlock'') None 30 \<longrightarrow>
                    analyze_patterns demo_runtime (init_tracker ''demo'') now' analysis_example
                      (Some ''sherlock'') None 30 = Inr insights"
    by blast
  from a have e: "insights = [bug_fix_insight, refactor_insight]" by (simp add: analysis_example_insights)
  from d w c(2) have d': "analyze_patterns demo_runtime (init_tracker ''demo'') 63835600000000001
      analysis_example (Some ''sherlock'') None 30 = Inr insights" by blast
  from e have f: "map frequency insights = [4, 3]" "map success_rate insights = [3 / 4, 1]"
    by (simp_all add: bug_fix_insight_def refactor_insight_def)
  show ?thesis
    by (intro conjI exI [of _ insights]) (rule c thr w a e f d')+
qed

subsection \<open>Recommendations\<close>

lemma analysis_example_recommendations: "get_recommendations demo_runtime (init_tracker ''demo'') 63835600000000000 analysis_example
    ''sherlock'' [(''file_type'', PStr ''Python'')] =
   Inr [''Add comprehensive tests for this pattern'', ''Consider refactoring similar code patterns'']"
  by (simp add: get_recommendations_def analysis_example_insights bug_fix_insight_def refactor_insight_def numeral_eq_Suc
       lower_def lower_char_def dict_fromkeys_def)

lemma matching_recommendations_nonempty:
  assumes "\<forall>i \<in> set insights. \<forall>pc \<in> set (contexts i). pc \<noteq> []"
  shows "matching_recommendations ctx insights =
     Inr (concat (map recommendations
            (filter (\<lambda>i. \<exists>pc \<in> set (contexts i).
                        real (count_matches ctx pc) / real (length pc) \<ge> 0.6) insights)))"
  using assms
proof (induction insights)
  case Nil
  show ?case by simp
next
  case (Cons i insights)
  then have a: "context_matches_pattern ctx (contexts i) =
      Inr (\<exists>pc \<in> set (contexts i). real (count_matches ctx pc) / real (length pc) \<ge> 0.6)"
    by (simp add: context_matches_pattern_nonempty)
  from Cons have b: "matching_recommendations ctx insights =
     Inr (concat (map recommendations
            (filter (\<lambda>i. \<exists>pc \<in> set (contexts i).
                        real (count_matches ctx pc) / real (length pc) \<ge> 0.6) insights)))"
    by simp
  show ?case by (simp add: a b)
qed

lemma get_recommendations_shape:
  "get_recommendations rt tr now st ag ctx = Inr recs \<Longrightarrow> length recs \<le> 5 \<and> distinct recs"
  by (auto simp: get_recommendations_def split: sum.splits)

lemma ranked_insights_contexts:
  assumes "i \<in> set (ranked_insights rt tr data)" and "pc \<in> set (contexts i)"
  shows "pc \<in> entry_context ` set data"
proof -
  from assms(1) have "i \<in> set (ranking_candidates rt tr data)"
    by (metis ranked_insights_candidates mset_sort_reverse set_mset_mset)
  then obtain s where s: "s \<in> create_pattern_signature ` set data" "i = bucket_insight rt data s"
    using ranking_candidates_member by blast
  with assms(2) have "pc \<in> entry_context ` set (bucket data s)"
    by (simp add: bucket_insight_fields)
  then show ?thesis by (auto simp: bucket_def)
qed

text \<open>
  C6. Whenever \<^verbatim>\<open>get_recommendations\<close> returns, it returns at most five strings, no two
  equal. When every stored timestamp parses and no stored context is empty it does return,
  and the result is the first five of: the recommendation lists of the ranked insights one
  of whose contexts matches the query, concatenated in ranked order, each string kept at
  its first occurrence only. The clock is taken to read a datetime from which thirty days
  can be subtracted, as every clock later than January of the year 1 does.
\<close>

theorem get_recommendations_capped_distinct:
  "(\<forall>recs. get_recommendations rt tr now st ag ctx = Inr recs \<longrightarrow>
       length recs \<le> 5 \<and> distinct recs) \<and>
   (cutoff_in_range now 30 \<and>
    (\<forall>e \<in> set (learning_db st). fromisoformat rt (timestamp e) \<noteq> None \<and> entry_context e \<noteq> []) \<longrightarrow>
    (\<exists>insights recs.
       analyze_patterns rt tr now st (Some ag) None 30 = Inr insights \<and>
       get_recommendations rt tr now st ag ctx = Inr recs \<and>
       length recs \<le> 5 \<and> distinct recs \<and>
       recs = take 5 (first_seen (concat (map recommendations
                (filter (\<lambda>i. \<exists>pc \<in> set (contexts i).
                    real (count_matches ctx pc) / real (length pc) \<ge> 0.6) insights))))))"
proof (intro conjI allI impI)
  fix recs
  assume "get_recommendations rt tr now st ag ctx = Inr recs"
  then show "length recs \<le> 5" and "distinct recs"
    using get_recommendations_shape by blast+
next
  assume hc: "cutoff_in_range now 30 \<and>
    (\<forall>e \<in> set (learning_db st). fromisoformat rt (timestamp e) \<noteq> None \<and> entry_context e \<noteq> [])"
  then have c: "cutoff_in_range now 30"
    and h: "\<forall>e \<in> set (learning_db st). fromisoformat rt (timestamp e) \<noteq> None \<and> entry_context e \<noteq> []"
    by blast+
  let ?data = "analysed_events rt now st (Some ag) None 30"
  let ?insights = "ranked_insights rt tr ?data"
  from h have an: "analyze_patterns rt tr now st (Some ag) None 30 = Inr ?insights"
    by (simp add: analyze_patterns_parsed [OF c])
  have "pc \<noteq> []" if "i \<in> set ?insights" "pc \<in> set (contexts i)" for i pc
  proof -
    from that have "pc \<in> entry_context ` set ?data" by (rule ranked_insights_contexts)
    then have "pc \<in> entry_context ` set (learning_db st)"
      by (auto simp: analysed_events_def)
    with h show ?thesis by auto
  qed
  then have m: "matching_recommendations ctx ?insights =
     Inr (concat (map recommendations
            (filter (\<lambda>i. \<exists>pc \<in> set (contexts i).
                        real (count_matches ctx pc) / real (length pc) \<ge> 0.6) ?insights)))"
    by (intro matching_recommendations_nonempty) blast
  have g: "get_recommendations rt tr now st ag ctx =
      Inr (take 5 (first_seen (concat (map recommendations
                (filter (\<lambda>i. \<exists>pc \<in> set (contexts i).
                    real (count_matches ctx pc) / real (length pc) \<ge> 0.6) ?insights)))))"
    by (simp add: get_recommendations_def an m dict_fromkeys_first_seen)
  from get_recommendations_shape [OF g] an g
  show "\<exists>insights recs.
       analyze_patterns rt tr now st (Some ag) None 30 = Inr insights \<and>
       get_recommendations rt tr now st ag ctx = Inr recs \<and>
       length recs \<le> 5 \<and> distinct recs \<and>
       recs = take 5 (first_seen (concat (map recommendations
                (filter (\<lambda>i. \<exists>pc \<in> set (contexts i).
                    real (count_matches ctx pc) / real (length pc) \<ge> 0.6) insights))))"
    by blast
qed

theorem get_recommendations_capped_distinct_witness:
  "\<exists>recs. get_recommendations demo_runtime (init_tracker ''demo'') 63835600000000000 analysis_example
             ''sherlock'' [(''file_type'', PStr ''Python'')] = Inr recs \<and>
      recs = [''Add comprehensive tests for this pattern'',
              ''Consider refactoring similar code patterns''] \<and>
      length recs \<le> 5 \<and> distinct recs \<and>
      recs = take 5 (first_seen (recommendations bug_fix_insight @ recommendations refactor_insight))"
proof -
  note t = get_recommendations_capped_distinct [of demo_runtime "init_tracker ''demo''" 63835600000000000 analysis_example
      "''sherlock''" "[(''file_type'', PStr ''Python'')]"]
  from t analysis_example_parsed analysis_example_cutoff(1) obtain insights recs where
    a: "analyze_patterns demo_runtime (init_tracker ''demo'') 63835600000000000 analysis_example
        (Some ''sherlock'') None 30 = Inr insights"
    and g: "get_recommendations demo_runtime (init_tracker ''demo'') 63835600000000000 analysis_example
             ''sherlock'' [(''file_type'', PStr ''Python'')] = Inr recs"
    and s: "length recs \<le> 5" "distinct recs"
    and r: "recs = take 5 (first_seen (concat (map recommendations
                (filter (\<lambda>i. \<exists>pc \<in> set (contexts i).
                    real (count_matches [(''file_type'', PStr ''Python'')] pc) / real (length pc) \<ge> 0.6)
                   insights))))"
    by blast
  from a have e: "insights = [bug_fix_insight, refactor_insight]" by (simp add: analysis_example_insights)
  from g have v: "recs = [''Add comprehensive tests for this pattern'',
              ''Consider refactoring similar code patterns'']" by (simp add: analysis_example_recommendations)
  have "filter (\<lambda>i. \<exists>pc \<in> set (contexts i).
                    real (count_matches [(''file_type'', PStr ''Python'')] pc) / real (length pc) \<ge> 0.6)
           [bug_fix_insight, refactor_insight] = [bug_fix_insight, refactor_insight]"
    by (simp add: bug_fix_insight_def refactor_insight_def numeral_eq_Suc lower_def lower_char_def)
  with r e have "recs = take 5 (first_seen (recommendations bug_fix_insight @
      recommendations refactor_insight))"
    by simp
  with g v s show ?thesis
    by (intro exI [of _ recs] conjI)
qed

end
